theory Spec2Isabelle
  imports Complex_Main "HOL-Library.Multiset"
begin

section \<open>Data model (app/models.py)\<close>

text \<open>
  Python \<open>Decimal\<close> values are modelled as exact rationals: \<open>+\<close>, \<open>-\<close>, \<open>*\<close> and the
  comparisons of \<open>Decimal\<close> are exact as long as a result fits the context precision
  (28 significant digits), which is assumed throughout. A naive \<open>datetime\<close> is the number
  of microseconds since \<open>datetime.min\<close>, a \<open>date\<close> the number of days since then;
  comparing two datetimes compares these numbers.
\<close>

type_synonym decimal = rat
type_synonym datetime = int
type_synonym date = int

definition cast_Date :: "datetime \<Rightarrow> date" where
  \<comment> \<open>\<open>cast(tanggal, Date)\<close>: the calendar date of a timestamp\<close>
  "cast_Date t = t div 86400000000"

text \<open>
  The tables with a primary key that the ledger only reads and updates by key
  (\<open>session.get(Nasabah, id)\<close>) are maps from the key; the \<open>id\<close> column is the key.
  Columns that no ledger operation reads (\<open>nik\<close>, \<open>alamat\<close>, \<open>instansi\<close>,
  \<open>created_at\<close>) are left out. A field name carries a prefix for its class (\<open>s_berat\<close> is
  \<open>TransaksiSetoran.berat\<close>, \<open>p_berat\<close> is \<open>TransaksiPengepul.berat\<close>), since the classes
  share field names.
\<close>

record Nasabah =
  n_kode :: string
  n_nama :: string
  n_saldo :: decimal

record Petugas =
  pt_kode :: string
  pt_nama :: string

record JenisSampah =
  js_kode :: string
  js_nama :: string
  js_harga_beli :: decimal
  js_harga_jual :: decimal

record Pengepul =
  pg_kode :: string
  pg_nama :: string

record TransaksiSetoran =
  s_id :: int
  s_nasabah_id :: int
  s_petugas_id :: int
  s_jenis_sampah_id :: int
  s_berat :: decimal
  s_nilai :: decimal
  s_tanggal :: datetime

record TransaksiTarik =
  t_id :: int
  t_nasabah_id :: int
  t_petugas_id :: int
  t_jumlah :: decimal
  t_tanggal :: datetime
  t_status :: string

record TransaksiPengepul =
  p_id :: int
  p_pengepul_id :: int
  p_jenis_sampah_id :: int
  p_berat :: decimal
  p_harga_jual :: decimal
  p_total :: decimal
  p_tanggal :: datetime

record TransaksiSetoranCreate =
  sc_nasabah_id :: int
  sc_petugas_id :: int
  sc_jenis_sampah_id :: int
  sc_berat :: decimal

record TransaksiTarikCreate =
  tc_nasabah_id :: int
  tc_petugas_id :: int
  tc_jumlah :: decimal

record TransaksiPengepulCreate =
  pc_pengepul_id :: int
  pc_jenis_sampah_id :: int
  pc_berat :: decimal
  pc_harga_jual :: decimal

record TransactionReport =
  transaction_id :: int
  transaction_type :: string
  nasabah_nama :: "string option"
  petugas_nama :: "string option"
  pengepul_nama :: "string option"
  jenis_sampah_nama :: "string option"
  berat :: "decimal option"
  nilai :: decimal
  tanggal :: datetime

section \<open>The record store\<close>

text \<open>
  Modelled from the spec: \<open>app/database.py\<close> (\<open>get_session\<close>) is not part of the
  sources. The spec's Record Store "persists typed records, each keyed by an identifier;
  supports get-by-id, insert, update, delete, and range/filter scans" and commits a unit of
  work "atomically or not at all". Accordingly a store holds the tables; an operation
  works on a copy of the store (the session) and returns either that copy (commit) or the
  store it was given (rollback, return without commit, or an exception that leaves the
  \<open>with get_session()\<close> block). The store keeps every value as it was written. It checks
  the foreign keys that the models declare (\<open>Field(foreign_key=...)\<close>) when a new row is
  sent to it, and raises \<open>IntegrityError\<close> for a row whose reference does not resolve.
  The order in which a query without \<open>ORDER BY\<close> returns its rows is the store's choice
  and is a parameter of the report (\<open>scan_order\<close> below).
\<close>

record store =
  nasabah :: "int \<rightharpoonup> Nasabah"
  petugas :: "int \<rightharpoonup> Petugas"
  jenis_sampah :: "int \<rightharpoonup> JenisSampah"
  pengepul :: "int \<rightharpoonup> Pengepul"
  transaksi_setoran :: "TransaksiSetoran list"
  transaksi_tarik :: "TransaksiTarik list"
  transaksi_pengepul :: "TransaksiPengepul list"

definition next_id :: "int list \<Rightarrow> int" where
  \<comment> \<open>Modelled from the spec: the identifier the store gives a new row (\<open>id = None\<close> on
      insert), larger than every identifier of the table.\<close>
  "next_id ids = foldr max ids 0 + 1"

definition get_tarik :: "store \<Rightarrow> int \<Rightarrow> TransaksiTarik option" where
  \<comment> \<open>\<open>session.get(TransaksiTarik, transaksi_id)\<close>\<close>
  "get_tarik s i = find (\<lambda>t. t_id t = i) (transaksi_tarik s)"

definition set_status :: "int \<Rightarrow> string \<Rightarrow> TransaksiTarik list \<Rightarrow> TransaksiTarik list" where
  \<comment> \<open>the \<open>UPDATE transaksi_tarik SET status = ... WHERE id = ...\<close> of a commit\<close>
  "set_status i st ts = map (\<lambda>t. if t_id t = i then t\<lparr>t_status := st\<rparr> else t) ts"

datatype error = IntegrityError

definition fk_setoran :: "store \<Rightarrow> TransaksiSetoran \<Rightarrow> bool" where
  \<comment> \<open>the foreign keys of \<open>TransaksiSetoran\<close>: \<open>nasabah.id\<close>, \<open>petugas.id\<close>,
      \<open>jenis_sampah.id\<close>\<close>
  "fk_setoran s r =
     (nasabah s (s_nasabah_id r) \<noteq> None \<and> petugas s (s_petugas_id r) \<noteq> None \<and>
      jenis_sampah s (s_jenis_sampah_id r) \<noteq> None)"

definition fk_tarik :: "store \<Rightarrow> TransaksiTarik \<Rightarrow> bool" where
  \<comment> \<open>the foreign keys of \<open>TransaksiTarik\<close>: \<open>nasabah.id\<close>, \<open>petugas.id\<close>\<close>
  "fk_tarik s r =
     (nasabah s (t_nasabah_id r) \<noteq> None \<and> petugas s (t_petugas_id r) \<noteq> None)"

definition fk_pengepul :: "store \<Rightarrow> TransaksiPengepul \<Rightarrow> bool" where
  \<comment> \<open>the foreign keys of \<open>TransaksiPengepul\<close>: \<open>pengepul.id\<close>, \<open>jenis_sampah.id\<close>\<close>
  "fk_pengepul s r =
     (pengepul s (p_pengepul_id r) \<noteq> None \<and> jenis_sampah s (p_jenis_sampah_id r) \<noteq> None)"

text \<open>
  Modelled from the spec: the insert of a row added with \<open>session.add\<close>. The session
  sends it when it flushes, which is at \<open>session.commit()\<close> or before the next query
  (\<open>session.get\<close> of an object that the session does not hold yet), whichever is first.
\<close>

definition insert_setoran :: "TransaksiSetoran \<Rightarrow> store \<Rightarrow> error + store" where
  "insert_setoran r s =
     (if fk_setoran s r then Inr (s\<lparr>transaksi_setoran := transaksi_setoran s @ [r]\<rparr>)
      else Inl IntegrityError)"

definition insert_tarik :: "TransaksiTarik \<Rightarrow> store \<Rightarrow> error + store" where
  "insert_tarik r s =
     (if fk_tarik s r then Inr (s\<lparr>transaksi_tarik := transaksi_tarik s @ [r]\<rparr>)
      else Inl IntegrityError)"

definition insert_pengepul :: "TransaksiPengepul \<Rightarrow> store \<Rightarrow> error + store" where
  "insert_pengepul r s =
     (if fk_pengepul s r then Inr (s\<lparr>transaksi_pengepul := transaksi_pengepul s @ [r]\<rparr>)
      else Inl IntegrityError)"

section \<open>Transaction services (app/transaction_service.py)\<close>

text \<open>
  The clock read by \<open>default_factory=datetime.utcnow\<close> is the argument \<open>now\<close>.
  A result is \<open>Inr x\<close> for the source's \<open>return x\<close> (\<open>None\<close> for \<open>return None\<close>) and
  \<open>Inl IntegrityError\<close> for the exception that the store raises and the service does not
  catch; with an exception nothing is committed.
\<close>

definition create_setoran ::
  "datetime \<Rightarrow> TransaksiSetoranCreate \<Rightarrow> store \<Rightarrow>
     (error + TransaksiSetoran option) \<times> store" where
  "create_setoran now data s =
     (case jenis_sampah s (sc_jenis_sampah_id data) of
        None \<Rightarrow> (Inr None, s)
      | Some js \<Rightarrow>
          let nilai = sc_berat data * js_harga_beli js;
              transaksi = \<lparr>s_id = next_id (map s_id (transaksi_setoran s)),
                           s_nasabah_id = sc_nasabah_id data,
                           s_petugas_id = sc_petugas_id data,
                           s_jenis_sampah_id = sc_jenis_sampah_id data,
                           s_berat = sc_berat data,
                           s_nilai = nilai,
                           s_tanggal = now\<rparr>
          in \<comment> \<open>\<open>session.add(transaksi)\<close>, flushed by the \<open>session.get(Nasabah, ...)\<close> after it\<close>
             (case insert_setoran transaksi s of
                Inl e \<Rightarrow> (Inl e, s)
              | Inr session \<Rightarrow>
                  (case nasabah session (sc_nasabah_id data) of
                     None \<Rightarrow> (Inr None, s)
                   | Some n \<Rightarrow>
                       (Inr (Some transaksi),
                        session\<lparr>nasabah := (nasabah session)
                          (sc_nasabah_id data \<mapsto> n\<lparr>n_saldo := n_saldo n + nilai\<rparr>)\<rparr>))))"

definition create_tarik ::
  "datetime \<Rightarrow> TransaksiTarikCreate \<Rightarrow> store \<Rightarrow> (error + TransaksiTarik option) \<times> store" where
  "create_tarik now data s =
     (case nasabah s (tc_nasabah_id data) of
        None \<Rightarrow> (Inr None, s)
      | Some n \<Rightarrow>
          if n_saldo n < tc_jumlah data then (Inr None, s)
          else
            let transaksi = \<lparr>t_id = next_id (map t_id (transaksi_tarik s)),
                             t_nasabah_id = tc_nasabah_id data,
                             t_petugas_id = tc_petugas_id data,
                             t_jumlah = tc_jumlah data,
                             t_tanggal = now,
                             t_status = ''pending''\<rparr>
            in \<comment> \<open>\<open>session.add(transaksi)\<close>, flushed by \<open>session.commit()\<close>\<close>
               (case insert_tarik transaksi s of
                  Inl e \<Rightarrow> (Inl e, s)
                | Inr session \<Rightarrow> (Inr (Some transaksi), session)))"

definition approve_tarik :: "int \<Rightarrow> store \<Rightarrow> bool \<times> store" where
  "approve_tarik transaksi_id s =
     (case get_tarik s transaksi_id of
        None \<Rightarrow> (False, s)
      | Some transaksi \<Rightarrow>
          if t_status transaksi \<noteq> ''pending'' then (False, s)
          else
            (case nasabah s (t_nasabah_id transaksi) of
               None \<Rightarrow> (False, s)
             | Some n \<Rightarrow>
                 if n_saldo n < t_jumlah transaksi then (False, s)
                 else
                   (True,
                    s\<lparr>nasabah := (nasabah s)
                         (t_nasabah_id transaksi \<mapsto>
                            n\<lparr>n_saldo := n_saldo n - t_jumlah transaksi\<rparr>),
                      transaksi_tarik :=
                         set_status (t_id transaksi) ''completed'' (transaksi_tarik s)\<rparr>)))"

definition reject_tarik :: "int \<Rightarrow> store \<Rightarrow> bool \<times> store" where
  "reject_tarik transaksi_id s =
     (case get_tarik s transaksi_id of
        None \<Rightarrow> (False, s)
      | Some transaksi \<Rightarrow>
          if t_status transaksi \<noteq> ''pending'' then (False, s)
          else
            (True,
             s\<lparr>transaksi_tarik :=
                  set_status (t_id transaksi) ''rejected'' (transaksi_tarik s)\<rparr>))"

definition create_pengepul_transaction ::
  "datetime \<Rightarrow> TransaksiPengepulCreate \<Rightarrow> store \<Rightarrow>
     (error + TransaksiPengepul option) \<times> store" where
  "create_pengepul_transaction now data s =
     (let total = pc_berat data * pc_harga_jual data;
          transaksi = \<lparr>p_id = next_id (map p_id (transaksi_pengepul s)),
                       p_pengepul_id = pc_pengepul_id data,
                       p_jenis_sampah_id = pc_jenis_sampah_id data,
                       p_berat = pc_berat data,
                       p_harga_jual = pc_harga_jual data,
                       p_total = total,
                       p_tanggal = now\<rparr>
      in \<comment> \<open>\<open>session.add(transaksi)\<close>, flushed by \<open>session.commit()\<close>\<close>
         (case insert_pengepul transaksi s of
            Inl e \<Rightarrow> (Inl e, s)
          | Inr session \<Rightarrow> (Inr (Some transaksi), session)))"

section \<open>Stock ledger (\<open>TransaksiSetoranService.get_total_waste_stock\<close>)\<close>

text \<open>
  The dictionary \<open>stock_by_type\<close> is an association list in insertion order, as a Python
  \<open>dict\<close> is; \<open>dict_set\<close> is \<open>d[k] = v\<close>.
\<close>

type_synonym stock_dict = "(int \<times> decimal) list"

fun dict_set :: "stock_dict \<Rightarrow> int \<Rightarrow> decimal \<Rightarrow> stock_dict" where
  "dict_set [] k v = [(k, v)]"
| "dict_set ((k', v') # d) k v = (if k' = k then (k, v) # d else (k', v') # dict_set d k v)"

definition dict_add :: "stock_dict \<Rightarrow> int \<Rightarrow> decimal \<Rightarrow> stock_dict" where
  \<comment> \<open>\<open>d[k] += x\<close>; the key is present at both places where the source does this\<close>
  "dict_add d k x = (case map_of d k of None \<Rightarrow> d | Some v \<Rightarrow> dict_set d k (v + x))"

definition add_setoran :: "TransaksiSetoran \<Rightarrow> stock_dict \<Rightarrow> stock_dict" where
  "add_setoran setoran stock_by_type =
     (let type_id = s_jenis_sampah_id setoran;
          d = (if map_of stock_by_type type_id = None
               then dict_set stock_by_type type_id 0 else stock_by_type)
      in dict_add d type_id (s_berat setoran))"

definition sub_pengepul :: "TransaksiPengepul \<Rightarrow> stock_dict \<Rightarrow> stock_dict" where
  "sub_pengepul pengepul_tx stock_by_type =
     (let type_id = p_jenis_sampah_id pengepul_tx;
          d = (if map_of stock_by_type type_id = None
               then dict_set stock_by_type type_id 0 else stock_by_type)
      in dict_add d type_id (- p_berat pengepul_tx))"

definition stock_by_type :: "store \<Rightarrow> stock_dict" where
  \<comment> \<open>the dictionary after the two loops\<close>
  "stock_by_type s =
     fold sub_pengepul (transaksi_pengepul s) (fold add_setoran (transaksi_setoran s) [])"

definition get_total_waste_stock :: "store \<Rightarrow> decimal" where
  "get_total_waste_stock s =
     (let d = stock_by_type s
      in if d \<noteq> [] then sum_list (map (\<lambda>stock. max stock 0) (map snd d)) else 0)"

text \<open>The quantities the stock formula of the specification is written in.\<close>

definition deposited :: "store \<Rightarrow> int \<Rightarrow> decimal" where
  "deposited s ty =
     sum_list (map s_berat (filter (\<lambda>r. s_jenis_sampah_id r = ty) (transaksi_setoran s)))"

definition sold :: "store \<Rightarrow> int \<Rightarrow> decimal" where
  "sold s ty =
     sum_list (map p_berat (filter (\<lambda>r. p_jenis_sampah_id r = ty) (transaksi_pengepul s)))"

definition waste_type_ids :: "store \<Rightarrow> int set" where
  "waste_type_ids s =
     set (map s_jenis_sampah_id (transaksi_setoran s)) \<union>
     set (map p_jenis_sampah_id (transaksi_pengepul s))"

section \<open>Reports (app/report_service.py)\<close>

definition in_range :: "date \<Rightarrow> date \<Rightarrow> datetime \<Rightarrow> bool" where
  \<comment> \<open>\<open>cast(tanggal, Date) >= start_date, cast(tanggal, Date) <= end_date\<close>\<close>
  "in_range start_date end_date t = (start_date \<le> cast_Date t \<and> cast_Date t \<le> end_date)"

definition setoran_entry :: "store \<Rightarrow> TransaksiSetoran \<Rightarrow> TransactionReport" where
  "setoran_entry s setoran =
     \<lparr>transaction_id = (if s_id setoran \<noteq> 0 then s_id setoran else 0),
      transaction_type = ''setoran'',
      nasabah_nama =
        Some (case nasabah s (s_nasabah_id setoran) of Some n \<Rightarrow> n_nama n | None \<Rightarrow> []),
      petugas_nama =
        Some (case petugas s (s_petugas_id setoran) of Some p \<Rightarrow> pt_nama p | None \<Rightarrow> []),
      pengepul_nama = None,
      jenis_sampah_nama =
        Some (case jenis_sampah s (s_jenis_sampah_id setoran) of
                Some j \<Rightarrow> js_nama j | None \<Rightarrow> []),
      berat = Some (s_berat setoran),
      nilai = s_nilai setoran,
      tanggal = s_tanggal setoran\<rparr>"

definition tarik_entry :: "store \<Rightarrow> TransaksiTarik \<Rightarrow> TransactionReport" where
  "tarik_entry s tarik =
     \<lparr>transaction_id = (if t_id tarik \<noteq> 0 then t_id tarik else 0),
      transaction_type = ''tarik'',
      nasabah_nama =
        Some (case nasabah s (t_nasabah_id tarik) of Some n \<Rightarrow> n_nama n | None \<Rightarrow> []),
      petugas_nama =
        Some (case petugas s (t_petugas_id tarik) of Some p \<Rightarrow> pt_nama p | None \<Rightarrow> []),
      pengepul_nama = None,
      jenis_sampah_nama = None,
      berat = None,
      nilai = t_jumlah tarik,
      tanggal = t_tanggal tarik\<rparr>"

definition pengepul_entry :: "store \<Rightarrow> TransaksiPengepul \<Rightarrow> TransactionReport" where
  "pengepul_entry s pengepul_tx =
     \<lparr>transaction_id = (if p_id pengepul_tx \<noteq> 0 then p_id pengepul_tx else 0),
      transaction_type = ''pengepul'',
      nasabah_nama = None,
      petugas_nama = None,
      pengepul_nama =
        Some (case pengepul s (p_pengepul_id pengepul_tx) of
                Some p \<Rightarrow> pg_nama p | None \<Rightarrow> []),
      jenis_sampah_nama =
        Some (case jenis_sampah s (p_jenis_sampah_id pengepul_tx) of
                Some j \<Rightarrow> js_nama j | None \<Rightarrow> []),
      berat = Some (p_berat pengepul_tx),
      nilai = p_total pengepul_tx,
      tanggal = p_tanggal pengepul_tx\<rparr>"

text \<open>
  Modelled from the spec: the three queries of the report have no \<open>ORDER BY\<close>, so the
  order of their rows is the store's (it need not be the order of insertion, for one
  after a row was updated). It is the parameter \<open>sc\<close> of the report: one function for
  each query, from the rows that match to the list that the store returns.
\<close>

record scan_order =
  scan_setoran :: "TransaksiSetoran list \<Rightarrow> TransaksiSetoran list"
  scan_tarik :: "TransaksiTarik list \<Rightarrow> TransaksiTarik list"
  scan_pengepul :: "TransaksiPengepul list \<Rightarrow> TransaksiPengepul list"

definition is_scan_order :: "scan_order \<Rightarrow> bool" where
  \<comment> \<open>a query returns each of its rows once, in some order\<close>
  "is_scan_order sc =
     ((\<forall>xs. mset (scan_setoran sc xs) = mset xs) \<and>
      (\<forall>xs. mset (scan_tarik sc xs) = mset xs) \<and>
      (\<forall>xs. mset (scan_pengepul sc xs) = mset xs))"

definition insertion_order :: scan_order where
  \<comment> \<open>the store that returns rows in the order of the table\<close>
  "insertion_order =
     \<lparr>scan_setoran = (\<lambda>xs. xs), scan_tarik = (\<lambda>xs. xs), scan_pengepul = (\<lambda>xs. xs)\<rparr>"

definition setoran_list :: "scan_order \<Rightarrow> date \<Rightarrow> date \<Rightarrow> store \<Rightarrow> TransaksiSetoran list" where
  "setoran_list sc start_date end_date s =
     scan_setoran sc
       (filter (\<lambda>r. in_range start_date end_date (s_tanggal r)) (transaksi_setoran s))"

definition tarik_list :: "scan_order \<Rightarrow> date \<Rightarrow> date \<Rightarrow> store \<Rightarrow> TransaksiTarik list" where
  "tarik_list sc start_date end_date s =
     scan_tarik sc
       (filter (\<lambda>r. in_range start_date end_date (t_tanggal r) \<and> t_status r = ''completed'')
          (transaksi_tarik s))"

definition pengepul_list :: "scan_order \<Rightarrow> date \<Rightarrow> date \<Rightarrow> store \<Rightarrow> TransaksiPengepul list" where
  "pengepul_list sc start_date end_date s =
     scan_pengepul sc
       (filter (\<lambda>r. in_range start_date end_date (p_tanggal r)) (transaksi_pengepul s))"

definition reports :: "scan_order \<Rightarrow> date \<Rightarrow> date \<Rightarrow> store \<Rightarrow> TransactionReport list" where
  \<comment> \<open>the list \<open>reports\<close> after the three loops, before it is sorted\<close>
  "reports sc start_date end_date s =
     map (setoran_entry s) (setoran_list sc start_date end_date s) @
     map (tarik_entry s) (tarik_list sc start_date end_date s) @
     map (pengepul_entry s) (pengepul_list sc start_date end_date s)"

definition sorted_reverse :: "('a \<Rightarrow> 'k::linorder) \<Rightarrow> 'a list \<Rightarrow> 'a list" where
  \<comment> \<open>Python's \<open>sorted(xs, key=key, reverse=True)\<close>: the list is reversed, sorted by a
      stable sort, and reversed again, so that equal keys keep their order.\<close>
  "sorted_reverse key xs = rev (sort_key key (rev xs))"

definition generate_transaction_report ::
  "scan_order \<Rightarrow> date \<Rightarrow> date \<Rightarrow> store \<Rightarrow> TransactionReport list" where
  "generate_transaction_report sc start_date end_date s =
     sorted_reverse tanggal (reports sc start_date end_date s)"

text \<open>
  The two totals of \<open>generate_customer_report\<close>: the customer's deposits, and the
  customer's withdrawals with status \<open>completed\<close>.
\<close>

definition total_setoran :: "store \<Rightarrow> int \<Rightarrow> decimal" where
  "total_setoran s nasabah_id =
     sum_list (map s_nilai (filter (\<lambda>r. s_nasabah_id r = nasabah_id) (transaksi_setoran s)))"

definition completed_of :: "int \<Rightarrow> TransaksiTarik \<Rightarrow> bool" where
  \<comment> \<open>\<open>TransaksiTarik.nasabah_id == nasabah_id, TransaksiTarik.status == "completed"\<close>\<close>
  "completed_of nasabah_id t = (t_nasabah_id t = nasabah_id \<and> t_status t = ''completed'')"

definition total_tarik :: "store \<Rightarrow> int \<Rightarrow> decimal" where
  "total_tarik s nasabah_id =
     sum_list (map t_jumlah (filter (completed_of nasabah_id) (transaksi_tarik s)))"

section \<open>Sequences of ledger operations\<close>

datatype op =
    RecordDeposit datetime TransaksiSetoranCreate
  | CreateWithdrawal datetime TransaksiTarikCreate
  | ApproveWithdrawal int
  | RejectWithdrawal int
  | RecordSale datetime TransaksiPengepulCreate

fun apply_op :: "op \<Rightarrow> store \<Rightarrow> store" where
  "apply_op (RecordDeposit now d) s = snd (create_setoran now d s)"
| "apply_op (CreateWithdrawal now d) s = snd (create_tarik now d s)"
| "apply_op (ApproveWithdrawal i) s = snd (approve_tarik i s)"
| "apply_op (RejectWithdrawal i) s = snd (reject_tarik i s)"
| "apply_op (RecordSale now d) s = snd (create_pengepul_transaction now d s)"

definition run :: "op list \<Rightarrow> store \<Rightarrow> store" where
  "run ops s = fold apply_op ops s"

definition empty_ledger :: "store \<Rightarrow> bool" where
  \<comment> \<open>no deposit, withdrawal or sale yet; every customer still has the balance it was
      created with (\<open>saldo\<close> defaults to 0)\<close>
  "empty_ledger s =
     (transaksi_setoran s = [] \<and> transaksi_tarik s = [] \<and> transaksi_pengepul s = [] \<and>
      (\<forall>c n. nasabah s c = Some n \<longrightarrow> n_saldo n = 0))"

fun deposit_value_ok :: "store \<Rightarrow> op \<Rightarrow> bool" where
  \<comment> \<open>a deposit whose value \<open>berat * harga_beli\<close> is not negative\<close>
  "deposit_value_ok s (RecordDeposit now d) =
     (case jenis_sampah s (sc_jenis_sampah_id d) of
        None \<Rightarrow> True
      | Some js \<Rightarrow> 0 \<le> sc_berat d * js_harga_beli js)"
| "deposit_value_ok s _ = True"

definition round_half_up_2 :: "decimal \<Rightarrow> decimal" where
  \<comment> \<open>the specification's "rounded to 2 fractional digits (round-half-up)", which is
      \<open>Decimal.quantize(Decimal("0.01"), ROUND_HALF_UP)\<close>: ties go away from zero\<close>
  "round_half_up_2 x = sgn x * of_int \<lfloor>\<bar>x\<bar> * 100 + 1 / 2\<rfloor> / 100"

section \<open>A small store, after the fixtures of the test suite\<close>

definition ex_store :: store where
  "ex_store =
     \<lparr>nasabah = [1 \<mapsto> \<lparr>n_kode = ''NAS001'', n_nama = ''Test Customer'', n_saldo = 0\<rparr>],
      petugas = [1 \<mapsto> \<lparr>pt_kode = ''PET001'', pt_nama = ''Test Officer''\<rparr>],
      jenis_sampah =
        [1 \<mapsto> \<lparr>js_kode = ''JS001'', js_nama = ''Plastik PET'',
                 js_harga_beli = 2000, js_harga_jual = 2500\<rparr>,
         2 \<mapsto> \<lparr>js_kode = ''JS002'', js_nama = ''Kertas'',
                 js_harga_beli = 25, js_harga_jual = 30\<rparr>],
      pengepul = [1 \<mapsto> \<lparr>pg_kode = ''PNG001'', pg_nama = ''Test Collector''\<rparr>],
      transaksi_setoran = [],
      transaksi_tarik = [],
      transaksi_pengepul = []\<rparr>"

definition ex_tarik :: "string \<Rightarrow> TransaksiTarik" where
  \<comment> \<open>a withdrawal request of 3000 by customer 1, in the given status\<close>
  "ex_tarik st =
     \<lparr>t_id = 1, t_nasabah_id = 1, t_petugas_id = 1, t_jumlah = 3000, t_tanggal = 0,
      t_status = st\<rparr>"

definition ex_setoran :: TransaksiSetoran where
  \<comment> \<open>the deposit of 5 kg of waste type 1 by customer 1, worth 10000\<close>
  "ex_setoran =
     \<lparr>s_id = 1, s_nasabah_id = 1, s_petugas_id = 1, s_jenis_sampah_id = 1, s_berat = 5,
      s_nilai = 10000, s_tanggal = 0\<rparr>"

definition ex_funded :: store where
  \<comment> \<open>\<open>ex_store\<close> after that deposit\<close>
  "ex_funded =
     ex_store
       \<lparr>nasabah := [1 \<mapsto> \<lparr>n_kode = ''NAS001'', n_nama = ''Test Customer'', n_saldo = 10000\<rparr>],
        transaksi_setoran := [ex_setoran]\<rparr>"

definition ex_ops :: "op list" where
  \<comment> \<open>a deposit of 5 kg, a withdrawal request of 3000 and its approval\<close>
  "ex_ops =
     [RecordDeposit 0
        \<lparr>sc_nasabah_id = 1, sc_petugas_id = 1, sc_jenis_sampah_id = 1, sc_berat = 5\<rparr>,
      CreateWithdrawal 0 \<lparr>tc_nasabah_id = 1, tc_petugas_id = 1, tc_jumlah = 3000\<rparr>,
      ApproveWithdrawal 1]"

definition ex_oversold :: store where
  \<comment> \<open>1 kg of waste type 1 deposited and 2 kg of it sold; 4 kg of waste type 2 deposited\<close>
  "ex_oversold =
     ex_store
       \<lparr>transaksi_setoran :=
          [\<lparr>s_id = 1, s_nasabah_id = 1, s_petugas_id = 1, s_jenis_sampah_id = 1, s_berat = 1,
            s_nilai = 2000, s_tanggal = 0\<rparr>,
           \<lparr>s_id = 2, s_nasabah_id = 1, s_petugas_id = 1, s_jenis_sampah_id = 2, s_berat = 4,
            s_nilai = 100, s_tanggal = 0\<rparr>],
        transaksi_pengepul :=
          [\<lparr>p_id = 1, p_pengepul_id = 1, p_jenis_sampah_id = 1, p_berat = 2,
            p_harga_jual = 2500, p_total = 5000, p_tanggal = 0\<rparr>]\<rparr>"

definition ex_day :: store where
  \<comment> \<open>one day (day 0) with a deposit, a completed and a pending withdrawal, and a sale\<close>
  "ex_day =
     ex_store
       \<lparr>nasabah := [1 \<mapsto> \<lparr>n_kode = ''NAS001'', n_nama = ''Test Customer'', n_saldo = 7000\<rparr>],
        transaksi_setoran := [ex_setoran],
        transaksi_tarik :=
          [(ex_tarik ''completed'')\<lparr>t_tanggal := 20\<rparr>,
           (ex_tarik ''pending'')\<lparr>t_id := 2, t_tanggal := 30\<rparr>],
        transaksi_pengepul :=
          [\<lparr>p_id = 1, p_pengepul_id = 1, p_jenis_sampah_id = 1, p_berat = 3,
            p_harga_jual = 2500, p_total = 7500, p_tanggal = 20\<rparr>]\<rparr>"

section \<open>Invariants and auxiliary notions of the proofs\<close>

definition conserved :: "store \<Rightarrow> bool" where
  \<comment> \<open>every balance is the customer's deposits minus the customer's completed withdrawals\<close>
  "conserved s =
     (\<forall>c n. nasabah s c = Some n \<longrightarrow> n_saldo n = total_setoran s c - total_tarik s c)"

definition ledger_inv :: "store \<Rightarrow> bool" where
  \<comment> \<open>the primary key of the withdrawal table is unique, and balances are conserved\<close>
  "ledger_inv s = (distinct (map t_id (transaksi_tarik s)) \<and> conserved s)"

definition nonneg :: "store \<Rightarrow> bool" where
  "nonneg s = (\<forall>c n. nasabah s c = Some n \<longrightarrow> 0 \<le> n_saldo n)"

definition dict_val :: "stock_dict \<Rightarrow> int \<Rightarrow> decimal" where
  \<comment> \<open>\<open>d.get(k, 0)\<close>\<close>
  "dict_val d k = (case map_of d k of None \<Rightarrow> 0 | Some v \<Rightarrow> v)"

definition bump :: "int \<Rightarrow> decimal \<Rightarrow> stock_dict \<Rightarrow> stock_dict" where
  \<comment> \<open>the common body of the two loops of \<open>get_total_waste_stock\<close>\<close>
  "bump k x d = dict_add (if map_of d k = None then dict_set d k 0 else d) k x"

section \<open>Deposits\<close>

lemma round_half_up_2_cents: "round_half_up_2 (of_int k / 100) = of_int k / 100"
proof -
  have "\<lfloor>\<bar>of_int k / 100 :: rat\<bar> * 100 + 1 / 2\<rfloor> = \<bar>k\<bar>"
    by (rule floor_unique) simp_all
  then show ?thesis
    by (cases "k = 0"; cases "k < 0") (simp_all add: round_half_up_2_def sgn_if)
qed

text \<open>
  C3 (as amended). \<open>create_setoran\<close> fails when the waste type or the customer does not
  exist, appending no record and changing no balance: it returns \<open>None\<close> for a missing
  waste type, and for a missing customer (as for a missing officer) the store refuses the
  new row and \<open>IntegrityError\<close> is raised. It does not look at the sign of the weight. In
  every other case in which the product \<open>berat * harga_beli\<close> has at most two fractional
  digits, the value is that product rounded to two fractional digits (round-half-up); the
  function appends exactly one record carrying that value and adds exactly that value to
  the balance of that customer, record and credit in the one store that is committed, and
  nothing else changes. Products with more than two fractional digits are left open.
\<close>

theorem create_setoran_contract:
  "(jenis_sampah s (sc_jenis_sampah_id d) = None \<longrightarrow>
      create_setoran now d s = (Inr None, s)) \<and>
   (jenis_sampah s (sc_jenis_sampah_id d) \<noteq> None \<and>
      (nasabah s (sc_nasabah_id d) = None \<or> petugas s (sc_petugas_id d) = None) \<longrightarrow>
      create_setoran now d s = (Inl IntegrityError, s)) \<and>
   (jenis_sampah s (sc_jenis_sampah_id d) = Some js \<and> nasabah s (sc_nasabah_id d) = Some n \<and>
      petugas s (sc_petugas_id d) \<noteq> None \<and>
      round_half_up_2 (sc_berat d * js_harga_beli js) = sc_berat d * js_harga_beli js \<longrightarrow>
      (let v = round_half_up_2 (sc_berat d * js_harga_beli js);
           r = \<lparr>s_id = next_id (map s_id (transaksi_setoran s)),
                s_nasabah_id = sc_nasabah_id d,
                s_petugas_id = sc_petugas_id d,
                s_jenis_sampah_id = sc_jenis_sampah_id d,
                s_berat = sc_berat d,
                s_nilai = v,
                s_tanggal = now\<rparr>
       in create_setoran now d s =
            (Inr (Some r),
             s\<lparr>transaksi_setoran := transaksi_setoran s @ [r],
               nasabah := (nasabah s)(sc_nasabah_id d \<mapsto> n\<lparr>n_saldo := n_saldo n + v\<rparr>)\<rparr>)))"
  by (auto simp: create_setoran_def insert_setoran_def fk_setoran_def Let_def
      split: option.splits)

theorem create_setoran_contract_witness:
  "jenis_sampah ex_store 9999 = None \<and>
   create_setoran 0
     \<lparr>sc_nasabah_id = 1, sc_petugas_id = 1, sc_jenis_sampah_id = 9999, sc_berat = 5 / 2\<rparr>
     ex_store = (Inr None, ex_store) \<and>
   jenis_sampah ex_store 1 \<noteq> None \<and> nasabah ex_store 9999 = None \<and>
   create_setoran 0
     \<lparr>sc_nasabah_id = 9999, sc_petugas_id = 1, sc_jenis_sampah_id = 1, sc_berat = 5 / 2\<rparr>
     ex_store = (Inl IntegrityError, ex_store) \<and>
   petugas ex_store 9999 = None \<and>
   create_setoran 0
     \<lparr>sc_nasabah_id = 1, sc_petugas_id = 9999, sc_jenis_sampah_id = 1, sc_berat = 5 / 2\<rparr>
     ex_store = (Inl IntegrityError, ex_store) \<and>
   nasabah ex_store 1 \<noteq> None \<and> petugas ex_store 1 \<noteq> None \<and>
   round_half_up_2 (5 / 2 * 2000) = 5 / 2 * 2000 \<and>
   create_setoran 0
     \<lparr>sc_nasabah_id = 1, sc_petugas_id = 1, sc_jenis_sampah_id = 1, sc_berat = 5 / 2\<rparr>
     ex_store =
     (Inr (Some \<lparr>s_id = 1, s_nasabah_id = 1, s_petugas_id = 1, s_jenis_sampah_id = 1,
            s_berat = 5 / 2, s_nilai = 5000, s_tanggal = 0\<rparr>),
      ex_store
        \<lparr>nasabah := [1 \<mapsto> \<lparr>n_kode = ''NAS001'', n_nama = ''Test Customer'', n_saldo = 5000\<rparr>],
         transaksi_setoran :=
           [\<lparr>s_id = 1, s_nasabah_id = 1, s_petugas_id = 1, s_jenis_sampah_id = 1,
             s_berat = 5 / 2, s_nilai = 5000, s_tanggal = 0\<rparr>]\<rparr>)"
  using
    create_setoran_contract [where s = ex_store and now = 0 and
      d = "\<lparr>sc_nasabah_id = 1, sc_petugas_id = 1, sc_jenis_sampah_id = 9999, sc_berat = 5 / 2\<rparr>"]
    create_setoran_contract [where s = ex_store and now = 0 and
      d = "\<lparr>sc_nasabah_id = 9999, sc_petugas_id = 1, sc_jenis_sampah_id = 1, sc_berat = 5 / 2\<rparr>"]
    create_setoran_contract [where s = ex_store and now = 0 and
      d = "\<lparr>sc_nasabah_id = 1, sc_petugas_id = 9999, sc_jenis_sampah_id = 1, sc_berat = 5 / 2\<rparr>"]
    create_setoran_contract [where s = ex_store and now = 0 and
      d = "\<lparr>sc_nasabah_id = 1, sc_petugas_id = 1, sc_jenis_sampah_id = 1, sc_berat = 5 / 2\<rparr>" and
      js = "\<lparr>js_kode = ''JS001'', js_nama = ''Plastik PET'',
             js_harga_beli = 2000, js_harga_jual = 2500\<rparr>" and
      n = "\<lparr>n_kode = ''NAS001'', n_nama = ''Test Customer'', n_saldo = 0\<rparr>"]
    round_half_up_2_cents [of 500000]
  by (simp add: ex_store_def next_id_def Let_def)

text \<open>
  The claim as stated fails: a deposit of weight \<open>-1\<close> is accepted, appends a record and
  lowers the balance to \<open>-2000\<close>; and a deposit with a positive weight, an existing waste
  type and an existing customer appends nothing when its officer does not exist.
\<close>

theorem create_setoran_counterexample:
  "create_setoran 0
     \<lparr>sc_nasabah_id = 1, sc_petugas_id = 1, sc_jenis_sampah_id = 1, sc_berat = - 1\<rparr> ex_store =
     (Inr (Some \<lparr>s_id = 1, s_nasabah_id = 1, s_petugas_id = 1, s_jenis_sampah_id = 1,
            s_berat = - 1, s_nilai = - 2000, s_tanggal = 0\<rparr>),
      ex_store
        \<lparr>nasabah := [1 \<mapsto> \<lparr>n_kode = ''NAS001'', n_nama = ''Test Customer'', n_saldo = - 2000\<rparr>],
         transaksi_setoran :=
           [\<lparr>s_id = 1, s_nasabah_id = 1, s_petugas_id = 1, s_jenis_sampah_id = 1,
             s_berat = - 1, s_nilai = - 2000, s_tanggal = 0\<rparr>]\<rparr>) \<and>
   jenis_sampah ex_store 1 \<noteq> None \<and> nasabah ex_store 1 \<noteq> None \<and>
   create_setoran 0
     \<lparr>sc_nasabah_id = 1, sc_petugas_id = 9999, sc_jenis_sampah_id = 1, sc_berat = 5 / 2\<rparr>
     ex_store = (Inl IntegrityError, ex_store)"
  by (simp add: create_setoran_def insert_setoran_def fk_setoran_def ex_store_def next_id_def
      Let_def)

section \<open>Withdrawal requests\<close>

text \<open>
  C5 (as amended). \<open>create_tarik\<close> returns \<open>None\<close> and the store it was given when the
  customer does not exist or when the amount is larger than the customer's balance. It
  does not look at the sign of the amount. Past these two checks the store refuses the new
  row when the officer does not exist (\<open>IntegrityError\<close>, nothing written); otherwise,
  also for an amount \<open>\<le> 0\<close>, exactly one request with status \<open>pending\<close> is appended and
  no balance changes.
\<close>

theorem create_tarik_contract:
  "(nasabah s (tc_nasabah_id d) = None \<longrightarrow> create_tarik now d s = (Inr None, s)) \<and>
   (nasabah s (tc_nasabah_id d) = Some n \<and> n_saldo n < tc_jumlah d \<longrightarrow>
      create_tarik now d s = (Inr None, s)) \<and>
   (nasabah s (tc_nasabah_id d) = Some n \<and> tc_jumlah d \<le> n_saldo n \<and>
      petugas s (tc_petugas_id d) = None \<longrightarrow>
      create_tarik now d s = (Inl IntegrityError, s)) \<and>
   (nasabah s (tc_nasabah_id d) = Some n \<and> tc_jumlah d \<le> n_saldo n \<and>
      petugas s (tc_petugas_id d) \<noteq> None \<longrightarrow>
      (let r = \<lparr>t_id = next_id (map t_id (transaksi_tarik s)),
                t_nasabah_id = tc_nasabah_id d,
                t_petugas_id = tc_petugas_id d,
                t_jumlah = tc_jumlah d,
                t_tanggal = now,
                t_status = ''pending''\<rparr>
       in create_tarik now d s =
            (Inr (Some r), s\<lparr>transaksi_tarik := transaksi_tarik s @ [r]\<rparr>)))"
  by (auto simp: create_tarik_def insert_tarik_def fk_tarik_def Let_def)

theorem create_tarik_contract_witness:
  "nasabah ex_store 9999 = None \<and>
   create_tarik 0 \<lparr>tc_nasabah_id = 9999, tc_petugas_id = 1, tc_jumlah = 1000\<rparr> ex_store =
     (Inr None, ex_store) \<and>
   map_option n_saldo (nasabah ex_store 1) = Some 0 \<and>
   create_tarik 0 \<lparr>tc_nasabah_id = 1, tc_petugas_id = 1, tc_jumlah = 1000\<rparr> ex_store =
     (Inr None, ex_store) \<and>
   map_option n_saldo (nasabah ex_funded 1) = Some 10000 \<and>
   petugas ex_funded 9999 = None \<and>
   create_tarik 0 \<lparr>tc_nasabah_id = 1, tc_petugas_id = 9999, tc_jumlah = 3000\<rparr> ex_funded =
     (Inl IntegrityError, ex_funded) \<and>
   petugas ex_funded 1 \<noteq> None \<and>
   create_tarik 0 \<lparr>tc_nasabah_id = 1, tc_petugas_id = 1, tc_jumlah = 3000\<rparr> ex_funded =
     (Inr (Some (ex_tarik ''pending'')),
      ex_funded\<lparr>transaksi_tarik := [ex_tarik ''pending'']\<rparr>)"
  using
    create_tarik_contract [where s = ex_store and now = 0 and
      d = "\<lparr>tc_nasabah_id = 9999, tc_petugas_id = 1, tc_jumlah = 1000\<rparr>"]
    create_tarik_contract [where s = ex_store and now = 0 and
      d = "\<lparr>tc_nasabah_id = 1, tc_petugas_id = 1, tc_jumlah = 1000\<rparr>" and
      n = "\<lparr>n_kode = ''NAS001'', n_nama = ''Test Customer'', n_saldo = 0\<rparr>"]
    create_tarik_contract [where s = ex_funded and now = 0 and
      d = "\<lparr>tc_nasabah_id = 1, tc_petugas_id = 9999, tc_jumlah = 3000\<rparr>" and
      n = "\<lparr>n_kode = ''NAS001'', n_nama = ''Test Customer'', n_saldo = 10000\<rparr>"]
    create_tarik_contract [where s = ex_funded and now = 0 and
      d = "\<lparr>tc_nasabah_id = 1, tc_petugas_id = 1, tc_jumlah = 3000\<rparr>" and
      n = "\<lparr>n_kode = ''NAS001'', n_nama = ''Test Customer'', n_saldo = 10000\<rparr>"]
  by (simp add: ex_store_def ex_funded_def ex_setoran_def ex_tarik_def next_id_def Let_def)

text \<open>
  The claim as stated fails for the amounts \<open>-5\<close> and \<open>0\<close>: both requests are created.
\<close>

theorem create_tarik_counterexample:
  "petugas ex_store 1 \<noteq> None \<and>
   create_tarik 0 \<lparr>tc_nasabah_id = 1, tc_petugas_id = 1, tc_jumlah = - 5\<rparr> ex_store =
     (Inr (Some \<lparr>t_id = 1, t_nasabah_id = 1, t_petugas_id = 1, t_jumlah = - 5, t_tanggal = 0,
            t_status = ''pending''\<rparr>),
      ex_store\<lparr>transaksi_tarik :=
        [\<lparr>t_id = 1, t_nasabah_id = 1, t_petugas_id = 1, t_jumlah = - 5, t_tanggal = 0,
          t_status = ''pending''\<rparr>]\<rparr>) \<and>
   create_tarik 0 \<lparr>tc_nasabah_id = 1, tc_petugas_id = 1, tc_jumlah = 0\<rparr> ex_store =
     (Inr (Some \<lparr>t_id = 1, t_nasabah_id = 1, t_petugas_id = 1, t_jumlah = 0, t_tanggal = 0,
            t_status = ''pending''\<rparr>),
      ex_store\<lparr>transaksi_tarik :=
        [\<lparr>t_id = 1, t_nasabah_id = 1, t_petugas_id = 1, t_jumlah = 0, t_tanggal = 0,
          t_status = ''pending''\<rparr>]\<rparr>)"
  by (simp add: create_tarik_def insert_tarik_def fk_tarik_def ex_store_def next_id_def Let_def)

section \<open>Withdrawal approval\<close>

lemma find_set_status_same:
  "find (\<lambda>t. t_id t = i) ts = Some t \<Longrightarrow>
   find (\<lambda>t. t_id t = i) (set_status i st ts) = Some (t\<lparr>t_status := st\<rparr>)"
  unfolding set_status_def by (induction ts) (auto split: if_splits)

lemma find_set_status_other:
  "i \<noteq> j \<Longrightarrow> find (\<lambda>t. t_id t = i) (set_status j st ts) = find (\<lambda>t. t_id t = i) ts"
  unfolding set_status_def by (induction ts) (auto split: if_splits)

lemma get_tarik_id: "get_tarik s i = Some t \<Longrightarrow> t_id t = i"
  by (auto simp: get_tarik_def find_Some_iff)

text \<open>
  C10. \<open>approve_tarik\<close> on a request that exists with status \<open>pending\<close> but whose customer
  row does not exist returns \<open>False\<close> (it does not raise) and returns the store it was
  given: the request keeps its status, and no balance and no record changes.
\<close>

theorem approve_tarik_missing_nasabah:
  assumes "get_tarik s i = Some t"
      and "t_status t = ''pending''"
      and "nasabah s (t_nasabah_id t) = None"
  shows "approve_tarik i s = (False, s)"
  using assms by (simp add: approve_tarik_def)

theorem approve_tarik_missing_nasabah_witness:
  "get_tarik (ex_store\<lparr>nasabah := Map.empty, transaksi_tarik := [ex_tarik ''pending'']\<rparr>) 1
     = Some (ex_tarik ''pending'') \<and>
   t_status (ex_tarik ''pending'') = ''pending'' \<and>
   nasabah (ex_store\<lparr>nasabah := Map.empty, transaksi_tarik := [ex_tarik ''pending'']\<rparr>)
     (t_nasabah_id (ex_tarik ''pending'')) = None \<and>
   approve_tarik 1 (ex_store\<lparr>nasabah := Map.empty, transaksi_tarik := [ex_tarik ''pending'']\<rparr>)
     = (False, ex_store\<lparr>nasabah := Map.empty, transaksi_tarik := [ex_tarik ''pending'']\<rparr>)"
  using approve_tarik_missing_nasabah
    [of "ex_store\<lparr>nasabah := Map.empty, transaksi_tarik := [ex_tarik ''pending'']\<rparr>" 1
        "ex_tarik ''pending''"]
  by (simp add: get_tarik_def ex_tarik_def)

text \<open>
  C4 (as amended). For a request that exists with status \<open>pending\<close>: if the customer's
  balance is at least the amount, \<open>approve_tarik\<close> returns \<open>True\<close>, debits the balance by
  exactly the amount and sets the status to \<open>completed\<close> in the one store it returns, and a
  second approval of the same request returns \<open>False\<close> and changes nothing; if the balance
  is smaller than the amount it returns \<open>False\<close> and the store it was given, the request
  still \<open>pending\<close>. For a request whose status is not \<open>pending\<close> it returns \<open>False\<close> and
  the store it was given. The failure is the one value \<open>False\<close> in every case; the function
  has no outcome that tells an insufficient balance from a wrong state.
\<close>

theorem approve_tarik_contract:
  "(get_tarik s i = Some t \<and> t_status t = ''pending'' \<and>
      nasabah s (t_nasabah_id t) = Some n \<and> t_jumlah t \<le> n_saldo n \<longrightarrow>
      (let s' = s\<lparr>nasabah := (nasabah s)
                      (t_nasabah_id t \<mapsto> n\<lparr>n_saldo := n_saldo n - t_jumlah t\<rparr>),
                    transaksi_tarik := set_status i ''completed'' (transaksi_tarik s)\<rparr>
       in approve_tarik i s = (True, s') \<and>
          get_tarik s' i = Some (t\<lparr>t_status := ''completed''\<rparr>) \<and>
          approve_tarik i s' = (False, s'))) \<and>
   (get_tarik s i = Some t \<and> t_status t = ''pending'' \<and>
      nasabah s (t_nasabah_id t) = Some n \<and> n_saldo n < t_jumlah t \<longrightarrow>
      approve_tarik i s = (False, s)) \<and>
   (get_tarik s i = Some t \<and> t_status t \<noteq> ''pending'' \<longrightarrow> approve_tarik i s = (False, s))"
proof (intro conjI impI)
  assume a: "get_tarik s i = Some t \<and> t_status t = ''pending'' \<and>
      nasabah s (t_nasabah_id t) = Some n \<and> t_jumlah t \<le> n_saldo n"
  then have id: "t_id t = i" using get_tarik_id by blast
  define s' where "s' = s\<lparr>nasabah := (nasabah s)
                      (t_nasabah_id t \<mapsto> n\<lparr>n_saldo := n_saldo n - t_jumlah t\<rparr>),
                    transaksi_tarik := set_status i ''completed'' (transaksi_tarik s)\<rparr>"
  from a id have ap: "approve_tarik i s = (True, s')"
    by (simp add: approve_tarik_def s'_def)
  from a have g: "get_tarik s' i = Some (t\<lparr>t_status := ''completed''\<rparr>)"
    by (simp add: get_tarik_def find_set_status_same s'_def)
  from g have "approve_tarik i s' = (False, s')"
    by (simp add: approve_tarik_def)
  with ap g show "let s' = s\<lparr>nasabah := (nasabah s)
                      (t_nasabah_id t \<mapsto> n\<lparr>n_saldo := n_saldo n - t_jumlah t\<rparr>),
                    transaksi_tarik := set_status i ''completed'' (transaksi_tarik s)\<rparr>
       in approve_tarik i s = (True, s') \<and>
          get_tarik s' i = Some (t\<lparr>t_status := ''completed''\<rparr>) \<and>
          approve_tarik i s' = (False, s')"
    unfolding s'_def Let_def by blast
next
  assume "get_tarik s i = Some t \<and> t_status t = ''pending'' \<and>
      nasabah s (t_nasabah_id t) = Some n \<and> n_saldo n < t_jumlah t"
  then show "approve_tarik i s = (False, s)" by (simp add: approve_tarik_def)
next
  assume "get_tarik s i = Some t \<and> t_status t \<noteq> ''pending''"
  then show "approve_tarik i s = (False, s)" by (simp add: approve_tarik_def)
qed

theorem approve_tarik_contract_witness:
  "get_tarik (ex_funded\<lparr>transaksi_tarik := [ex_tarik ''pending'']\<rparr>) 1 =
     Some (ex_tarik ''pending'') \<and>
   approve_tarik 1 (ex_funded\<lparr>transaksi_tarik := [ex_tarik ''pending'']\<rparr>) =
     (True,
      ex_funded
        \<lparr>nasabah := [1 \<mapsto> \<lparr>n_kode = ''NAS001'', n_nama = ''Test Customer'', n_saldo = 7000\<rparr>],
         transaksi_tarik := [ex_tarik ''completed'']\<rparr>) \<and>
   approve_tarik 1
     (ex_funded
        \<lparr>nasabah := [1 \<mapsto> \<lparr>n_kode = ''NAS001'', n_nama = ''Test Customer'', n_saldo = 7000\<rparr>],
         transaksi_tarik := [ex_tarik ''completed'']\<rparr>) =
     (False,
      ex_funded
        \<lparr>nasabah := [1 \<mapsto> \<lparr>n_kode = ''NAS001'', n_nama = ''Test Customer'', n_saldo = 7000\<rparr>],
         transaksi_tarik := [ex_tarik ''completed'']\<rparr>) \<and>
   get_tarik (ex_store\<lparr>transaksi_tarik := [ex_tarik ''pending'']\<rparr>) 1 =
     Some (ex_tarik ''pending'') \<and>
   approve_tarik 1 (ex_store\<lparr>transaksi_tarik := [ex_tarik ''pending'']\<rparr>) =
     (False, ex_store\<lparr>transaksi_tarik := [ex_tarik ''pending'']\<rparr>) \<and>
   get_tarik (ex_funded\<lparr>transaksi_tarik := [ex_tarik ''rejected'']\<rparr>) 1 =
     Some (ex_tarik ''rejected'') \<and>
   approve_tarik 1 (ex_funded\<lparr>transaksi_tarik := [ex_tarik ''rejected'']\<rparr>) =
     (False, ex_funded\<lparr>transaksi_tarik := [ex_tarik ''rejected'']\<rparr>)"
  using
    approve_tarik_contract [where s = "ex_funded\<lparr>transaksi_tarik := [ex_tarik ''pending'']\<rparr>"
      and i = 1 and t = "ex_tarik ''pending''"
      and n = "\<lparr>n_kode = ''NAS001'', n_nama = ''Test Customer'', n_saldo = 10000\<rparr>"]
    approve_tarik_contract [where s = "ex_store\<lparr>transaksi_tarik := [ex_tarik ''pending'']\<rparr>"
      and i = 1 and t = "ex_tarik ''pending''"
      and n = "\<lparr>n_kode = ''NAS001'', n_nama = ''Test Customer'', n_saldo = 0\<rparr>"]
    approve_tarik_contract [where s = "ex_funded\<lparr>transaksi_tarik := [ex_tarik ''rejected'']\<rparr>"
      and i = 1 and t = "ex_tarik ''rejected''"]
  by (simp add: ex_store_def ex_funded_def ex_setoran_def ex_tarik_def get_tarik_def
      set_status_def Let_def)

text \<open>
  The claim as stated names two kinds of failure. The approval of a pending request of
  3000 against the balance 0 and the approval of a completed request return the same
  value.
\<close>

theorem approve_tarik_counterexample:
  "approve_tarik 1 (ex_store\<lparr>transaksi_tarik := [ex_tarik ''pending'']\<rparr>) =
     (False, ex_store\<lparr>transaksi_tarik := [ex_tarik ''pending'']\<rparr>) \<and>
   approve_tarik 1 (ex_funded\<lparr>transaksi_tarik := [ex_tarik ''completed'']\<rparr>) =
     (False, ex_funded\<lparr>transaksi_tarik := [ex_tarik ''completed'']\<rparr>) \<and>
   fst (approve_tarik 1 (ex_store\<lparr>transaksi_tarik := [ex_tarik ''pending'']\<rparr>)) =
   fst (approve_tarik 1 (ex_funded\<lparr>transaksi_tarik := [ex_tarik ''completed'']\<rparr>))"
  by (simp add: approve_tarik_def get_tarik_def ex_store_def ex_funded_def ex_tarik_def)

section \<open>Collector sales\<close>

text \<open>
  C7 (as amended). \<open>create_pengepul_transaction\<close> fails unless both the collector id and
  the waste type id resolve: the store refuses the new row, \<open>IntegrityError\<close> is raised and
  nothing is written. It checks neither the weight nor the sale price. When both ids
  resolve, for every weight and sale price whose product has at most two fractional
  digits, it appends exactly one record whose total is that product rounded to two
  fractional digits, and changes no balance and no other record. Products with more than
  two fractional digits are left open.
\<close>

theorem create_pengepul_transaction_contract:
  "(pengepul s (pc_pengepul_id d) = None \<or> jenis_sampah s (pc_jenis_sampah_id d) = None \<longrightarrow>
      create_pengepul_transaction now d s = (Inl IntegrityError, s)) \<and>
   (pengepul s (pc_pengepul_id d) \<noteq> None \<and> jenis_sampah s (pc_jenis_sampah_id d) \<noteq> None \<and>
      round_half_up_2 (pc_berat d * pc_harga_jual d) = pc_berat d * pc_harga_jual d \<longrightarrow>
      (let r = \<lparr>p_id = next_id (map p_id (transaksi_pengepul s)),
                p_pengepul_id = pc_pengepul_id d,
                p_jenis_sampah_id = pc_jenis_sampah_id d,
                p_berat = pc_berat d,
                p_harga_jual = pc_harga_jual d,
                p_total = round_half_up_2 (pc_berat d * pc_harga_jual d),
                p_tanggal = now\<rparr>
       in create_pengepul_transaction now d s =
            (Inr (Some r), s\<lparr>transaksi_pengepul := transaksi_pengepul s @ [r]\<rparr>)))"
  by (auto simp: create_pengepul_transaction_def insert_pengepul_def fk_pengepul_def Let_def)

theorem create_pengepul_transaction_contract_witness:
  "pengepul ex_store 9999 = None \<and>
   create_pengepul_transaction 0
     \<lparr>pc_pengepul_id = 9999, pc_jenis_sampah_id = 1, pc_berat = 3, pc_harga_jual = 2500\<rparr>
     ex_store = (Inl IntegrityError, ex_store) \<and>
   jenis_sampah ex_store 9999 = None \<and>
   create_pengepul_transaction 0
     \<lparr>pc_pengepul_id = 1, pc_jenis_sampah_id = 9999, pc_berat = 3, pc_harga_jual = 2500\<rparr>
     ex_store = (Inl IntegrityError, ex_store) \<and>
   pengepul ex_store 1 \<noteq> None \<and> jenis_sampah ex_store 1 \<noteq> None \<and>
   round_half_up_2 (3 * 2500) = 3 * 2500 \<and>
   create_pengepul_transaction 0
     \<lparr>pc_pengepul_id = 1, pc_jenis_sampah_id = 1, pc_berat = 3, pc_harga_jual = 2500\<rparr> ex_store =
     (Inr (Some \<lparr>p_id = 1, p_pengepul_id = 1, p_jenis_sampah_id = 1, p_berat = 3,
            p_harga_jual = 2500, p_total = 7500, p_tanggal = 0\<rparr>),
      ex_store\<lparr>transaksi_pengepul :=
        [\<lparr>p_id = 1, p_pengepul_id = 1, p_jenis_sampah_id = 1, p_berat = 3,
          p_harga_jual = 2500, p_total = 7500, p_tanggal = 0\<rparr>]\<rparr>)"
  using
    create_pengepul_transaction_contract [where s = ex_store and now = 0 and
      d = "\<lparr>pc_pengepul_id = 9999, pc_jenis_sampah_id = 1, pc_berat = 3, pc_harga_jual = 2500\<rparr>"]
    create_pengepul_transaction_contract [where s = ex_store and now = 0 and
      d = "\<lparr>pc_pengepul_id = 1, pc_jenis_sampah_id = 9999, pc_berat = 3, pc_harga_jual = 2500\<rparr>"]
    create_pengepul_transaction_contract [where s = ex_store and now = 0 and
      d = "\<lparr>pc_pengepul_id = 1, pc_jenis_sampah_id = 1, pc_berat = 3, pc_harga_jual = 2500\<rparr>"]
    round_half_up_2_cents [of 750000]
  by (simp add: ex_store_def next_id_def Let_def)

text \<open>
  The claim as stated fails: with both ids resolving, a sale of weight \<open>-3\<close> at the price
  \<open>0\<close> is recorded.
\<close>

theorem create_pengepul_transaction_counterexample:
  "pengepul ex_store 1 \<noteq> None \<and> jenis_sampah ex_store 1 \<noteq> None \<and>
   create_pengepul_transaction 0
     \<lparr>pc_pengepul_id = 1, pc_jenis_sampah_id = 1, pc_berat = - 3, pc_harga_jual = 0\<rparr> ex_store =
     (Inr (Some \<lparr>p_id = 1, p_pengepul_id = 1, p_jenis_sampah_id = 1, p_berat = - 3,
            p_harga_jual = 0, p_total = 0, p_tanggal = 0\<rparr>),
      ex_store\<lparr>transaksi_pengepul :=
        [\<lparr>p_id = 1, p_pengepul_id = 1, p_jenis_sampah_id = 1, p_berat = - 3,
          p_harga_jual = 0, p_total = 0, p_tanggal = 0\<rparr>]\<rparr>)"
  by (simp add: create_pengepul_transaction_def insert_pengepul_def fk_pengepul_def ex_store_def
      next_id_def Let_def)

section \<open>Rejection and terminal states\<close>

lemma find_snoc_Some:
  "find P xs = Some t \<Longrightarrow> find P (xs @ [x]) = Some t"
  by (induction xs) (auto split: if_splits)

lemma apply_op_keeps_settled:
  assumes "get_tarik s i = Some t" and "t_status t \<noteq> ''pending''"
  shows "get_tarik (apply_op x s) i = Some t"
proof (cases x)
  case (RecordDeposit now d)
  with assms show ?thesis
    by (simp add: create_setoran_def insert_setoran_def get_tarik_def Let_def
        split: option.splits)
next
  case (CreateWithdrawal now d)
  with assms show ?thesis
    by (simp add: create_tarik_def insert_tarik_def get_tarik_def Let_def find_snoc_Some
        split: option.splits)
next
  case (ApproveWithdrawal j)
  show ?thesis
  proof (cases "j = i")
    case True
    with assms ApproveWithdrawal show ?thesis by (simp add: approve_tarik_def)
  next
    case False
    have "find (\<lambda>t. t_id t = i) (set_status (t_id u) st (transaksi_tarik s))
            = find (\<lambda>t. t_id t = i) (transaksi_tarik s)" if "get_tarik s j = Some u" for u st
      using that False get_tarik_id [of s j u] by (simp add: find_set_status_other)
    with assms ApproveWithdrawal show ?thesis
      by (auto simp: approve_tarik_def get_tarik_def split: option.splits)
  qed
next
  case (RejectWithdrawal j)
  show ?thesis
  proof (cases "j = i")
    case True
    with assms RejectWithdrawal show ?thesis by (simp add: reject_tarik_def)
  next
    case False
    have "find (\<lambda>t. t_id t = i) (set_status (t_id u) st (transaksi_tarik s))
            = find (\<lambda>t. t_id t = i) (transaksi_tarik s)" if "get_tarik s j = Some u" for u st
      using that False get_tarik_id [of s j u] by (simp add: find_set_status_other)
    with assms RejectWithdrawal show ?thesis
      by (auto simp: reject_tarik_def get_tarik_def split: option.splits)
  qed
next
  case (RecordSale now d)
  with assms show ?thesis
    by (simp add: create_pengepul_transaction_def insert_pengepul_def get_tarik_def Let_def)
qed

lemma run_keeps_settled:
  "get_tarik s i = Some t \<Longrightarrow> t_status t \<noteq> ''pending'' \<Longrightarrow> get_tarik (run ops s) i = Some t"
  unfolding run_def
  by (induction ops arbitrary: s) (simp_all add: apply_op_keeps_settled)

text \<open>
  C6. \<open>reject_tarik\<close> on a request with status \<open>pending\<close> returns \<open>True\<close>, sets the status
  to \<open>rejected\<close> and leaves every balance as it was; on a request whose status is not
  \<open>pending\<close> it returns \<open>False\<close> and the store it was given. From any store, whatever
  sequence of ledger operations follows (approvals and rejections in particular), a
  request whose status is not \<open>pending\<close> (so one that is \<open>completed\<close> or \<open>rejected\<close>) stays
  exactly as it is: a rejected request never becomes completed.
\<close>

theorem reject_tarik_terminal:
  "(get_tarik s i = Some t \<and> t_status t = ''pending'' \<longrightarrow>
      (let s' = s\<lparr>transaksi_tarik := set_status i ''rejected'' (transaksi_tarik s)\<rparr>
       in reject_tarik i s = (True, s') \<and>
          get_tarik s' i = Some (t\<lparr>t_status := ''rejected''\<rparr>) \<and>
          nasabah s' = nasabah s)) \<and>
   (get_tarik s i = Some t \<and> t_status t \<noteq> ''pending'' \<longrightarrow> reject_tarik i s = (False, s)) \<and>
   (get_tarik s i = Some t \<and> t_status t \<noteq> ''pending'' \<longrightarrow>
      get_tarik (run ops s) i = Some t)"
proof (intro conjI impI)
  assume a: "get_tarik s i = Some t \<and> t_status t = ''pending''"
  then have id: "t_id t = i" using get_tarik_id by blast
  from a id show "let s' = s\<lparr>transaksi_tarik := set_status i ''rejected'' (transaksi_tarik s)\<rparr>
       in reject_tarik i s = (True, s') \<and>
          get_tarik s' i = Some (t\<lparr>t_status := ''rejected''\<rparr>) \<and>
          nasabah s' = nasabah s"
    by (simp add: reject_tarik_def get_tarik_def find_set_status_same Let_def)
next
  assume "get_tarik s i = Some t \<and> t_status t \<noteq> ''pending''"
  then show "reject_tarik i s = (False, s)" by (simp add: reject_tarik_def)
next
  assume "get_tarik s i = Some t \<and> t_status t \<noteq> ''pending''"
  then show "get_tarik (run ops s) i = Some t" by (simp add: run_keeps_settled)
qed

theorem reject_tarik_terminal_witness:
  "get_tarik (ex_funded\<lparr>transaksi_tarik := [ex_tarik ''pending'']\<rparr>) 1 =
     Some (ex_tarik ''pending'') \<and>
   reject_tarik 1 (ex_funded\<lparr>transaksi_tarik := [ex_tarik ''pending'']\<rparr>) =
     (True, ex_funded\<lparr>transaksi_tarik := [ex_tarik ''rejected'']\<rparr>) \<and>
   get_tarik (ex_funded\<lparr>transaksi_tarik := [ex_tarik ''rejected'']\<rparr>) 1 =
     Some (ex_tarik ''rejected'') \<and>
   reject_tarik 1 (ex_funded\<lparr>transaksi_tarik := [ex_tarik ''rejected'']\<rparr>) =
     (False, ex_funded\<lparr>transaksi_tarik := [ex_tarik ''rejected'']\<rparr>) \<and>
   get_tarik
     (run [ApproveWithdrawal 1, RejectWithdrawal 1, ApproveWithdrawal 1]
        (ex_funded\<lparr>transaksi_tarik := [ex_tarik ''rejected'']\<rparr>)) 1 =
     Some (ex_tarik ''rejected'')"
  using
    reject_tarik_terminal [where s = "ex_funded\<lparr>transaksi_tarik := [ex_tarik ''pending'']\<rparr>"
      and i = 1 and t = "ex_tarik ''pending''"]
    reject_tarik_terminal [where s = "ex_funded\<lparr>transaksi_tarik := [ex_tarik ''rejected'']\<rparr>"
      and i = 1 and t = "ex_tarik ''rejected''"
      and ops = "[ApproveWithdrawal 1, RejectWithdrawal 1, ApproveWithdrawal 1]"]
  by (simp add: ex_funded_def ex_store_def ex_tarik_def get_tarik_def set_status_def Let_def)

section \<open>Balance conservation and non-negativity\<close>

lemma foldr_max_ge: "x \<in> set ids \<Longrightarrow> x \<le> foldr max ids (0::int)"
  by (induction ids) auto

lemma next_id_fresh: "next_id ids \<notin> set ids"
  using foldr_max_ge [of "next_id ids" ids] by (auto simp: next_id_def)

lemma map_t_id_set_status: "map t_id (set_status i st ts) = map t_id ts"
  by (induction ts) (auto simp: set_status_def)

lemma set_status_absent: "i \<notin> set (map t_id ts) \<Longrightarrow> set_status i st ts = ts"
  by (induction ts) (auto simp: set_status_def)

lemma sum_completed_set_status:
  assumes "distinct (map t_id ts)" and "find (\<lambda>x. t_id x = i) ts = Some t"
  shows "sum_list (map t_jumlah (filter (completed_of c) (set_status i st ts))) =
         sum_list (map t_jumlah (filter (completed_of c) ts))
           - (if completed_of c t then t_jumlah t else 0)
           + (if completed_of c (t\<lparr>t_status := st\<rparr>) then t_jumlah t else 0)"
  using assms
proof (induction ts)
  case Nil
  then show ?case by simp
next
  case (Cons x xs)
  show ?case
  proof (cases "t_id x = i")
    case True
    with Cons.prems have "x = t" and "i \<notin> set (map t_id xs)" by auto
    then have "set_status i st (x # xs) = t\<lparr>t_status := st\<rparr> # xs"
      using set_status_absent [of i xs st] True by (simp add: set_status_def)
    with \<open>x = t\<close> show ?thesis by simp
  next
    case False
    with Cons.prems have "distinct (map t_id xs)" and "find (\<lambda>x. t_id x = i) xs = Some t"
      by auto
    from Cons.IH [OF this] False show ?thesis by (simp add: set_status_def)
  qed
qed

lemma create_setoran_inv: "ledger_inv s \<Longrightarrow> ledger_inv (snd (create_setoran now d s))"
  by (auto simp: ledger_inv_def conserved_def create_setoran_def insert_setoran_def Let_def
      total_setoran_def
      total_tarik_def split: option.splits)

lemma create_tarik_inv: "ledger_inv s \<Longrightarrow> ledger_inv (snd (create_tarik now d s))"
  using next_id_fresh [of "map t_id (transaksi_tarik s)"]
  by (auto simp: ledger_inv_def conserved_def create_tarik_def insert_tarik_def Let_def
      total_setoran_def
      total_tarik_def completed_of_def split: option.splits)

lemma create_pengepul_inv:
  "ledger_inv s \<Longrightarrow> ledger_inv (snd (create_pengepul_transaction now d s))"
  by (auto simp: ledger_inv_def conserved_def create_pengepul_transaction_def
      insert_pengepul_def Let_def
      total_setoran_def total_tarik_def)

lemma reject_tarik_inv: "ledger_inv s \<Longrightarrow> ledger_inv (snd (reject_tarik i s))"
proof (cases "get_tarik s i")
  case None
  then show "ledger_inv s \<Longrightarrow> ?thesis" by (simp add: reject_tarik_def)
next
  case (Some t)
  assume inv: "ledger_inv s"
  show ?thesis
  proof (cases "t_status t = ''pending''")
    case False
    with Some inv show ?thesis by (simp add: reject_tarik_def)
  next
    case True
    have id: "t_id t = i" using Some by (rule get_tarik_id)
    from inv have d: "distinct (map t_id (transaksi_tarik s))" by (simp add: ledger_inv_def)
    from Some have f: "find (\<lambda>x. t_id x = i) (transaksi_tarik s) = Some t"
      by (simp add: get_tarik_def)
    have "total_tarik (s\<lparr>transaksi_tarik := set_status i ''rejected'' (transaksi_tarik s)\<rparr>) c
            = total_tarik s c" for c
      using sum_completed_set_status [OF d f, of c "''rejected''"] True
      by (simp add: total_tarik_def completed_of_def)
    with inv Some True id show ?thesis
      by (simp add: reject_tarik_def ledger_inv_def conserved_def map_t_id_set_status
          total_setoran_def)
  qed
qed

lemma approve_tarik_inv: "ledger_inv s \<Longrightarrow> ledger_inv (snd (approve_tarik i s))"
proof (cases "get_tarik s i")
  case None
  then show "ledger_inv s \<Longrightarrow> ?thesis" by (simp add: approve_tarik_def)
next
  case (Some t)
  assume inv: "ledger_inv s"
  show ?thesis
  proof (cases "t_status t = ''pending'' \<and>
      (\<exists>n. nasabah s (t_nasabah_id t) = Some n \<and> t_jumlah t \<le> n_saldo n)")
    case False
    with Some inv show ?thesis
      by (auto simp: approve_tarik_def split: option.splits)
  next
    case True
    then obtain n where p: "t_status t = ''pending''"
      and n: "nasabah s (t_nasabah_id t) = Some n" and le: "t_jumlah t \<le> n_saldo n"
      by blast
    have id: "t_id t = i" using Some by (rule get_tarik_id)
    from inv have d: "distinct (map t_id (transaksi_tarik s))" by (simp add: ledger_inv_def)
    from Some have f: "find (\<lambda>x. t_id x = i) (transaksi_tarik s) = Some t"
      by (simp add: get_tarik_def)
    let ?s' = "s\<lparr>nasabah := (nasabah s)
                      (t_nasabah_id t \<mapsto> n\<lparr>n_saldo := n_saldo n - t_jumlah t\<rparr>),
                  transaksi_tarik := set_status i ''completed'' (transaksi_tarik s)\<rparr>"
    have ap: "approve_tarik i s = (True, ?s')"
      using Some p n le id by (simp add: approve_tarik_def)
    have tt: "total_tarik ?s' c =
                total_tarik s c + (if t_nasabah_id t = c then t_jumlah t else 0)" for c
      using sum_completed_set_status [OF d f, of c "''completed''"] p
      by (simp add: total_tarik_def completed_of_def)
    have ts: "total_setoran ?s' c = total_setoran s c" for c
      by (simp add: total_setoran_def)
    from inv have cons: "\<And>c m. nasabah s c = Some m \<Longrightarrow>
        n_saldo m = total_setoran s c - total_tarik s c"
      by (simp add: ledger_inv_def conserved_def)
    have "conserved ?s'"
      unfolding conserved_def
    proof (intro allI impI)
      fix c m assume m: "nasabah ?s' c = Some m"
      show "n_saldo m = total_setoran ?s' c - total_tarik ?s' c"
      proof (cases "c = t_nasabah_id t")
        case True
        with m have "m = n\<lparr>n_saldo := n_saldo n - t_jumlah t\<rparr>" by simp
        with True cons [OF n] show ?thesis unfolding tt ts by simp
      next
        case False
        with m have "nasabah s c = Some m" by simp
        from cons [OF this] False show ?thesis unfolding tt ts by simp
      qed
    qed
    with d ap show ?thesis by (simp add: ledger_inv_def map_t_id_set_status)
  qed
qed

lemma apply_op_inv: "ledger_inv s \<Longrightarrow> ledger_inv (apply_op x s)"
  by (cases x)
    (simp_all add: create_setoran_inv create_tarik_inv approve_tarik_inv reject_tarik_inv
      create_pengepul_inv)

lemma run_inv: "ledger_inv s \<Longrightarrow> ledger_inv (run ops s)"
  unfolding run_def by (induction ops arbitrary: s) (simp_all add: apply_op_inv)

lemma empty_ledger_inv: "empty_ledger s \<Longrightarrow> ledger_inv s"
  by (simp add: empty_ledger_def ledger_inv_def conserved_def total_setoran_def total_tarik_def)

lemma run_ex_ops:
  "run ex_ops ex_store =
     ex_funded
       \<lparr>nasabah := [1 \<mapsto> \<lparr>n_kode = ''NAS001'', n_nama = ''Test Customer'', n_saldo = 7000\<rparr>],
        transaksi_tarik := [ex_tarik ''completed'']\<rparr>"
  by (simp add: run_def ex_ops_def ex_store_def ex_funded_def ex_setoran_def ex_tarik_def
      create_setoran_def create_tarik_def approve_tarik_def get_tarik_def set_status_def
      insert_setoran_def insert_tarik_def fk_setoran_def fk_tarik_def
      next_id_def Let_def)

text \<open>
  C1. In every store reached from an empty ledger by any sequence of \<open>create_setoran\<close>,
  \<open>create_tarik\<close>, \<open>approve_tarik\<close>, \<open>reject_tarik\<close> and \<open>create_pengepul_transaction\<close>,
  every customer's \<open>saldo\<close> is the sum of \<open>nilai\<close> over the customer's deposits minus the
  sum of \<open>jumlah\<close> over the customer's withdrawal requests with status \<open>completed\<close>.
\<close>

theorem balance_conservation:
  assumes "empty_ledger s0" and "nasabah (run ops s0) c = Some n"
  shows "n_saldo n = total_setoran (run ops s0) c - total_tarik (run ops s0) c"
  using run_inv [OF empty_ledger_inv [OF assms(1)], of ops] assms(2)
  by (simp add: ledger_inv_def conserved_def)

theorem balance_conservation_witness:
  "empty_ledger ex_store \<and>
   nasabah (run ex_ops ex_store) 1 =
     Some \<lparr>n_kode = ''NAS001'', n_nama = ''Test Customer'', n_saldo = 7000\<rparr> \<and>
   total_setoran (run ex_ops ex_store) 1 = 10000 \<and>
   total_tarik (run ex_ops ex_store) 1 = 3000 \<and>
   n_saldo \<lparr>n_kode = ''NAS001'', n_nama = ''Test Customer'', n_saldo = 7000\<rparr> =
     total_setoran (run ex_ops ex_store) 1 - total_tarik (run ex_ops ex_store) 1"
proof -
  have e: "empty_ledger ex_store"
    by (simp add: empty_ledger_def ex_store_def)
  have r: "nasabah (run ex_ops ex_store) 1 =
     Some \<lparr>n_kode = ''NAS001'', n_nama = ''Test Customer'', n_saldo = 7000\<rparr>"
    by (simp add: run_ex_ops)
  have a: "total_setoran (run ex_ops ex_store) 1 = 10000"
    by (simp add: run_ex_ops total_setoran_def ex_funded_def ex_setoran_def)
  have b: "total_tarik (run ex_ops ex_store) 1 = 3000"
    by (simp add: run_ex_ops total_tarik_def completed_of_def ex_tarik_def)
  from balance_conservation [OF e r] e r a b show ?thesis by blast
qed

lemma apply_op_jenis_sampah: "jenis_sampah (apply_op x s) = jenis_sampah s"
  by (cases x)
    (simp_all add: create_setoran_def create_tarik_def approve_tarik_def reject_tarik_def
      create_pengepul_transaction_def insert_setoran_def insert_tarik_def insert_pengepul_def
      Let_def split: option.splits)

lemma deposit_value_ok_cong:
  "jenis_sampah s = jenis_sampah s' \<Longrightarrow> deposit_value_ok s x = deposit_value_ok s' x"
  by (cases x) simp_all

lemma apply_op_nonneg: "nonneg s \<Longrightarrow> deposit_value_ok s x \<Longrightarrow> nonneg (apply_op x s)"
  by (cases x)
    (auto simp: nonneg_def create_setoran_def create_tarik_def approve_tarik_def
      reject_tarik_def create_pengepul_transaction_def insert_setoran_def insert_tarik_def
      insert_pengepul_def Let_def split: option.splits if_splits)

lemma run_nonneg: "nonneg s \<Longrightarrow> list_all (deposit_value_ok s) ops \<Longrightarrow> nonneg (run ops s)"
  unfolding run_def
proof (induction ops arbitrary: s)
  case Nil
  then show ?case by simp
next
  case (Cons x xs)
  have "deposit_value_ok (apply_op x s) = deposit_value_ok s"
    using deposit_value_ok_cong [OF apply_op_jenis_sampah] by blast
  with Cons show ?case by (simp add: apply_op_nonneg)
qed

text \<open>
  C2 (as amended). In every store reached from an empty ledger by a sequence of ledger
  operations in which every deposit has a value \<open>berat * harga_beli\<close> that is not
  negative, every customer's \<open>saldo\<close> is at least zero. Withdrawals and sales may have any
  arguments.
\<close>

theorem balance_nonneg:
  assumes "empty_ledger s0" and "list_all (deposit_value_ok s0) ops"
      and "nasabah (run ops s0) c = Some n"
  shows "0 \<le> n_saldo n"
proof -
  from assms(1) have "nonneg s0" by (simp add: empty_ledger_def nonneg_def)
  from run_nonneg [OF this assms(2)] assms(3) show ?thesis by (simp add: nonneg_def)
qed

theorem balance_nonneg_witness:
  "empty_ledger ex_store \<and> list_all (deposit_value_ok ex_store) ex_ops \<and>
   nasabah (run ex_ops ex_store) 1 =
     Some \<lparr>n_kode = ''NAS001'', n_nama = ''Test Customer'', n_saldo = 7000\<rparr> \<and>
   0 \<le> n_saldo \<lparr>n_kode = ''NAS001'', n_nama = ''Test Customer'', n_saldo = 7000\<rparr>"
proof -
  have e: "empty_ledger ex_store"
    by (simp add: empty_ledger_def ex_store_def)
  have l: "list_all (deposit_value_ok ex_store) ex_ops"
    by (simp add: ex_ops_def ex_store_def)
  have r: "nasabah (run ex_ops ex_store) 1 =
     Some \<lparr>n_kode = ''NAS001'', n_nama = ''Test Customer'', n_saldo = 7000\<rparr>"
    by (simp add: run_ex_ops)
  from balance_nonneg [OF e l r] e l r show ?thesis by blast
qed

text \<open>
  The claim as stated, for all argument values that the operations accept, fails: from
  the empty ledger one deposit of weight \<open>-1\<close> is accepted and leaves the balance
  \<open>-2000\<close>.
\<close>

theorem balance_nonneg_counterexample:
  "empty_ledger ex_store \<and>
   nasabah
     (run [RecordDeposit 0
             \<lparr>sc_nasabah_id = 1, sc_petugas_id = 1, sc_jenis_sampah_id = 1, sc_berat = - 1\<rparr>]
        ex_store) 1 =
     Some \<lparr>n_kode = ''NAS001'', n_nama = ''Test Customer'', n_saldo = - 2000\<rparr> \<and>
   n_saldo \<lparr>n_kode = ''NAS001'', n_nama = ''Test Customer'', n_saldo = - 2000\<rparr> < 0"
  by (simp add: empty_ledger_def run_def ex_store_def create_setoran_def insert_setoran_def
      fk_setoran_def next_id_def Let_def)

section \<open>Stock on hand\<close>

lemma map_of_dict_set: "map_of (dict_set d k v) = (map_of d)(k \<mapsto> v)"
  by (induction d k v rule: dict_set.induct) auto

lemma keys_dict_set: "fst ` set (dict_set d k v) = insert k (fst ` set d)"
  by (induction d k v rule: dict_set.induct) auto

lemma distinct_dict_set: "distinct (map fst d) \<Longrightarrow> distinct (map fst (dict_set d k v))"
  by (induction d k v rule: dict_set.induct) (auto simp: keys_dict_set)

lemma map_of_None_keys: "(map_of d k = None) = (k \<notin> fst ` set d)"
  by (simp add: map_of_eq_None_iff)

lemma add_setoran_bump: "add_setoran r d = bump (s_jenis_sampah_id r) (s_berat r) d"
  by (simp add: add_setoran_def bump_def Let_def)

lemma sub_pengepul_bump: "sub_pengepul r d = bump (p_jenis_sampah_id r) (- p_berat r) d"
  by (simp add: sub_pengepul_def bump_def Let_def)

lemma bump_keys: "fst ` set (bump k x d) = insert k (fst ` set d)"
  by (auto simp: bump_def dict_add_def keys_dict_set map_of_dict_set map_of_None_keys
      split: option.splits)

lemma bump_distinct: "distinct (map fst d) \<Longrightarrow> distinct (map fst (bump k x d))"
  by (auto simp: bump_def dict_add_def distinct_dict_set split: option.splits)

lemma bump_val: "dict_val (bump k x d) j = dict_val d j + (if j = k then x else 0)"
  by (auto simp: bump_def dict_add_def dict_val_def map_of_dict_set split: option.splits)

lemma fold_add_setoran:
  "distinct (map fst d) \<Longrightarrow>
   distinct (map fst (fold add_setoran rs d)) \<and>
   fst ` set (fold add_setoran rs d) = fst ` set d \<union> s_jenis_sampah_id ` set rs \<and>
   (\<forall>j. dict_val (fold add_setoran rs d) j =
      dict_val d j + sum_list (map s_berat (filter (\<lambda>r. s_jenis_sampah_id r = j) rs)))"
proof (induction rs arbitrary: d)
  case Nil
  then show ?case by simp
next
  case (Cons r rs)
  from Cons.IH [OF bump_distinct [OF Cons.prems, of "s_jenis_sampah_id r" "s_berat r"]]
  show ?case by (auto simp: add_setoran_bump bump_keys bump_val)
qed

lemma fold_sub_pengepul:
  "distinct (map fst d) \<Longrightarrow>
   distinct (map fst (fold sub_pengepul rs d)) \<and>
   fst ` set (fold sub_pengepul rs d) = fst ` set d \<union> p_jenis_sampah_id ` set rs \<and>
   (\<forall>j. dict_val (fold sub_pengepul rs d) j =
      dict_val d j - sum_list (map p_berat (filter (\<lambda>r. p_jenis_sampah_id r = j) rs)))"
proof (induction rs arbitrary: d)
  case Nil
  then show ?case by simp
next
  case (Cons r rs)
  from Cons.IH [OF bump_distinct [OF Cons.prems, of "p_jenis_sampah_id r" "- p_berat r"]]
  show ?case by (auto simp: sub_pengepul_bump bump_keys bump_val)
qed

lemma stock_by_type_props:
  "distinct (map fst (stock_by_type s)) \<and>
   fst ` set (stock_by_type s) = waste_type_ids s \<and>
   (\<forall>j. dict_val (stock_by_type s) j = deposited s j - sold s j)"
proof -
  have a: "distinct (map fst ([] :: stock_dict))" by simp
  note f1 = fold_add_setoran [OF a, of "transaksi_setoran s"]
  then have d1: "distinct (map fst (fold add_setoran (transaksi_setoran s) []))" by blast
  note f2 = fold_sub_pengepul [OF d1, of "transaksi_pengepul s"]
  from f1 f2 show ?thesis
    by (simp add: stock_by_type_def waste_type_ids_def deposited_def sold_def dict_val_def)
qed

lemma sum_dict:
  "distinct (map fst d) \<Longrightarrow>
   sum_list (map (\<lambda>stock. max stock 0) (map snd d)) =
   (\<Sum>k\<in>fst ` set d. max (dict_val d k) 0)"
proof (induction d)
  case Nil
  then show ?case by simp
next
  case (Cons p d)
  obtain k v where p: "p = (k, v)" by (cases p)
  from Cons.prems p have k: "k \<notin> fst ` set d" and dd: "distinct (map fst d)" by auto
  have "(\<Sum>j\<in>fst ` set d. max (dict_val (p # d) j) 0) =
        (\<Sum>j\<in>fst ` set d. max (dict_val d j) 0)"
    using k p by (intro sum.cong) (auto simp: dict_val_def)
  with Cons.IH [OF dd] k p show ?case by (simp add: dict_val_def)
qed

text \<open>
  C8. For every store, \<open>get_total_waste_stock\<close> is the sum, over the waste type ids that
  occur in a deposit or a collector sale, of
  \<open>max (deposited weight - sold weight) 0\<close>; it is never negative; and a type whose sold
  weight exceeds its deposited weight contributes nothing, the result being the sum over
  the other types alone.
\<close>

theorem get_total_waste_stock_formula:
  "get_total_waste_stock s = (\<Sum>ty\<in>waste_type_ids s. max (deposited s ty - sold s ty) 0) \<and>
   0 \<le> get_total_waste_stock s \<and>
   (deposited s ty < sold s ty \<longrightarrow>
      get_total_waste_stock s =
        (\<Sum>u\<in>waste_type_ids s - {ty}. max (deposited s u - sold s u) 0))"
proof -
  note p = stock_by_type_props [of s]
  have "get_total_waste_stock s =
          sum_list (map (\<lambda>stock. max stock 0) (map snd (stock_by_type s)))"
    by (simp add: get_total_waste_stock_def Let_def)
  also have "\<dots> = (\<Sum>k\<in>fst ` set (stock_by_type s). max (dict_val (stock_by_type s) k) 0)"
    using p sum_dict by blast
  also have "\<dots> = (\<Sum>ty\<in>waste_type_ids s. max (deposited s ty - sold s ty) 0)"
    using p by simp
  finally have f: "get_total_waste_stock s =
      (\<Sum>ty\<in>waste_type_ids s. max (deposited s ty - sold s ty) 0)" .
  have fin: "finite (waste_type_ids s)" by (simp add: waste_type_ids_def)
  have nn: "0 \<le> get_total_waste_stock s"
    unfolding f by (rule sum_nonneg) simp
  have "(\<Sum>u\<in>waste_type_ids s. max (deposited s u - sold s u) 0) =
        (\<Sum>u\<in>waste_type_ids s - {ty}. max (deposited s u - sold s u) 0)"
    if "deposited s ty < sold s ty"
  proof (cases "ty \<in> waste_type_ids s")
    case True
    from that have "max (deposited s ty - sold s ty) 0 = 0" by simp
    with sum.remove [OF fin True, of "\<lambda>u. max (deposited s u - sold s u) 0"]
    show ?thesis by simp
  next
    case False
    then show ?thesis by simp
  qed
  with f nn show ?thesis by simp
qed

theorem get_total_waste_stock_formula_witness:
  "deposited ex_oversold 1 < sold ex_oversold 1 \<and>
   waste_type_ids ex_oversold - {1} = {2} \<and>
   deposited ex_oversold 2 - sold ex_oversold 2 = 4 \<and>
   get_total_waste_stock ex_oversold = 4"
proof -
  have a: "deposited ex_oversold 1 < sold ex_oversold 1"
    by (simp add: deposited_def sold_def ex_oversold_def)
  have b: "waste_type_ids ex_oversold - {1} = {2}"
    by (auto simp: waste_type_ids_def ex_oversold_def)
  have c: "deposited ex_oversold 2 - sold ex_oversold 2 = 4"
    by (simp add: deposited_def sold_def ex_oversold_def)
  from get_total_waste_stock_formula [of ex_oversold 1] a
  have "get_total_waste_stock ex_oversold =
          (\<Sum>u\<in>waste_type_ids ex_oversold - {1}.
             max (deposited ex_oversold u - sold ex_oversold u) 0)"
    by blast
  with a b c show ?thesis by simp
qed

section \<open>Transaction report\<close>

lemma sorted_reverse_mset: "mset (sorted_reverse key xs) = mset xs"
  by (simp add: sorted_reverse_def)

lemma sorted_reverse_desc: "sorted_wrt (\<lambda>a b. key b \<le> key a) (sorted_reverse key xs)"
proof -
  have "sorted (map key (sort_key key (rev xs)))" by (rule sorted_sort_key)
  then have "sorted_wrt (\<lambda>a b. key a \<le> key b) (sort_key key (rev xs))"
    by (simp add: sorted_map)
  then show ?thesis by (simp add: sorted_reverse_def sorted_wrt_rev)
qed

lemma sorted_reverse_stable:
  "filter (\<lambda>e. key e = k) (sorted_reverse key xs) = filter (\<lambda>e. key e = k) xs"
proof -
  have "filter (\<lambda>e. key e = k) (sorted_reverse key xs) =
        rev (filter (\<lambda>e. key e = k) (sort_key key (rev xs)))"
    by (simp add: sorted_reverse_def rev_filter)
  also have "\<dots> = rev (filter (\<lambda>e. key e = k) (rev xs))"
    by (simp only: sort_key_stable)
  also have "\<dots> = filter (\<lambda>e. key e = k) xs"
    by (simp add: rev_filter)
  finally show ?thesis .
qed

lemma entry_fields:
  "transaction_type (setoran_entry s a) = ''setoran'' \<and>
   transaction_id (setoran_entry s a) = s_id a \<and>
   berat (setoran_entry s a) = Some (s_berat a) \<and>
   nilai (setoran_entry s a) = s_nilai a \<and>
   tanggal (setoran_entry s a) = s_tanggal a \<and>
   transaction_type (tarik_entry s b) = ''tarik'' \<and>
   transaction_id (tarik_entry s b) = t_id b \<and>
   berat (tarik_entry s b) = None \<and>
   nilai (tarik_entry s b) = t_jumlah b \<and>
   tanggal (tarik_entry s b) = t_tanggal b \<and>
   transaction_type (pengepul_entry s c) = ''pengepul'' \<and>
   transaction_id (pengepul_entry s c) = p_id c \<and>
   berat (pengepul_entry s c) = Some (p_berat c) \<and>
   nilai (pengepul_entry s c) = p_total c \<and>
   tanggal (pengepul_entry s c) = p_tanggal c"
  by (simp add: setoran_entry_def tarik_entry_def pengepul_entry_def)

lemma filter_tanggal_entries:
  "filter (\<lambda>e. tanggal e = k) (map (setoran_entry s) xs) =
     map (setoran_entry s) (filter (\<lambda>r. s_tanggal r = k) xs)"
  "filter (\<lambda>e. tanggal e = k) (map (tarik_entry s) ys) =
     map (tarik_entry s) (filter (\<lambda>r. t_tanggal r = k) ys)"
  "filter (\<lambda>e. tanggal e = k) (map (pengepul_entry s) zs) =
     map (pengepul_entry s) (filter (\<lambda>r. p_tanggal r = k) zs)"
  by (simp_all add: filter_map o_def entry_fields)

text \<open>
  C9 (as amended). For all dates, every store and every order in which the store returns
  the rows of a query, \<open>generate_transaction_report\<close> holds exactly one entry for each
  deposit, each withdrawal request with status \<open>completed\<close> and each collector sale whose
  timestamp's calendar date lies between the two dates inclusive, and nothing else (as
  multisets); each entry carries the tag of its kind and the id, weight, value and
  timestamp of its record; the list is in descending order of timestamp; and the entries
  with one and the same timestamp are the deposits first, then the completed withdrawals,
  then the sales, each kind in the order in which the store returned its rows (the sort is
  stable).
\<close>

theorem generate_transaction_report_correct:
  assumes "is_scan_order sc"
  shows
  "mset (generate_transaction_report sc start_date end_date s) =
     image_mset (setoran_entry s)
       (filter_mset (\<lambda>r. start_date \<le> cast_Date (s_tanggal r) \<and>
                          cast_Date (s_tanggal r) \<le> end_date)
          (mset (transaksi_setoran s))) +
     image_mset (tarik_entry s)
       (filter_mset (\<lambda>r. start_date \<le> cast_Date (t_tanggal r) \<and>
                          cast_Date (t_tanggal r) \<le> end_date \<and>
                          t_status r = ''completed'')
          (mset (transaksi_tarik s))) +
     image_mset (pengepul_entry s)
       (filter_mset (\<lambda>r. start_date \<le> cast_Date (p_tanggal r) \<and>
                          cast_Date (p_tanggal r) \<le> end_date)
          (mset (transaksi_pengepul s))) \<and>
   transaction_type (setoran_entry s a) = ''setoran'' \<and>
   transaction_id (setoran_entry s a) = s_id a \<and>
   berat (setoran_entry s a) = Some (s_berat a) \<and>
   nilai (setoran_entry s a) = s_nilai a \<and>
   tanggal (setoran_entry s a) = s_tanggal a \<and>
   transaction_type (tarik_entry s b) = ''tarik'' \<and>
   transaction_id (tarik_entry s b) = t_id b \<and>
   berat (tarik_entry s b) = None \<and>
   nilai (tarik_entry s b) = t_jumlah b \<and>
   tanggal (tarik_entry s b) = t_tanggal b \<and>
   transaction_type (pengepul_entry s c) = ''pengepul'' \<and>
   transaction_id (pengepul_entry s c) = p_id c \<and>
   berat (pengepul_entry s c) = Some (p_berat c) \<and>
   nilai (pengepul_entry s c) = p_total c \<and>
   tanggal (pengepul_entry s c) = p_tanggal c \<and>
   sorted_wrt (\<lambda>x y. tanggal y \<le> tanggal x)
     (generate_transaction_report sc start_date end_date s) \<and>
   filter (\<lambda>e. tanggal e = k) (generate_transaction_report sc start_date end_date s) =
     map (setoran_entry s)
       (filter (\<lambda>r. s_tanggal r = k) (setoran_list sc start_date end_date s)) @
     map (tarik_entry s)
       (filter (\<lambda>r. t_tanggal r = k) (tarik_list sc start_date end_date s)) @
     map (pengepul_entry s)
       (filter (\<lambda>r. p_tanggal r = k) (pengepul_list sc start_date end_date s))"
proof -
  from assms have sc:
    "\<And>xs. mset (scan_setoran sc xs) = mset xs"
    "\<And>xs. mset (scan_tarik sc xs) = mset xs"
    "\<And>xs. mset (scan_pengepul sc xs) = mset xs"
    by (simp_all add: is_scan_order_def)
  have m: "mset (generate_transaction_report sc start_date end_date s) =
     image_mset (setoran_entry s)
       (filter_mset (\<lambda>r. start_date \<le> cast_Date (s_tanggal r) \<and>
                          cast_Date (s_tanggal r) \<le> end_date)
          (mset (transaksi_setoran s))) +
     image_mset (tarik_entry s)
       (filter_mset (\<lambda>r. start_date \<le> cast_Date (t_tanggal r) \<and>
                          cast_Date (t_tanggal r) \<le> end_date \<and>
                          t_status r = ''completed'')
          (mset (transaksi_tarik s))) +
     image_mset (pengepul_entry s)
       (filter_mset (\<lambda>r. start_date \<le> cast_Date (p_tanggal r) \<and>
                          cast_Date (p_tanggal r) \<le> end_date)
          (mset (transaksi_pengepul s)))"
    by (simp add: generate_transaction_report_def sorted_reverse_mset reports_def
        setoran_list_def tarik_list_def pengepul_list_def sc in_range_def conj_assoc)
  have o: "sorted_wrt (\<lambda>x y. tanggal y \<le> tanggal x)
     (generate_transaction_report sc start_date end_date s)"
    by (simp add: generate_transaction_report_def sorted_reverse_desc)
  have t: "filter (\<lambda>e. tanggal e = k) (generate_transaction_report sc start_date end_date s) =
     map (setoran_entry s)
       (filter (\<lambda>r. s_tanggal r = k) (setoran_list sc start_date end_date s)) @
     map (tarik_entry s)
       (filter (\<lambda>r. t_tanggal r = k) (tarik_list sc start_date end_date s)) @
     map (pengepul_entry s)
       (filter (\<lambda>r. p_tanggal r = k) (pengepul_list sc start_date end_date s))"
    by (simp add: generate_transaction_report_def sorted_reverse_stable reports_def
        filter_tanggal_entries)
  from m o t entry_fields [of s a b c] show ?thesis by blast
qed

theorem generate_transaction_report_correct_witness:
  "is_scan_order insertion_order \<and>
   filter (\<lambda>e. tanggal e = 20) (generate_transaction_report insertion_order 0 0 ex_day) =
     [tarik_entry ex_day ((ex_tarik ''completed'')\<lparr>t_tanggal := 20\<rparr>),
      pengepul_entry ex_day
        \<lparr>p_id = 1, p_pengepul_id = 1, p_jenis_sampah_id = 1, p_berat = 3,
         p_harga_jual = 2500, p_total = 7500, p_tanggal = 20\<rparr>] \<and>
   size (mset (generate_transaction_report insertion_order 0 0 ex_day)) = 3"
proof -
  have h: "is_scan_order insertion_order"
    by (simp add: is_scan_order_def insertion_order_def)
  note r = generate_transaction_report_correct [OF h, of 0 0 ex_day _ _ _ 20]
  from r have "filter (\<lambda>e. tanggal e = 20) (generate_transaction_report insertion_order 0 0 ex_day) =
     map (setoran_entry ex_day)
       (filter (\<lambda>r. s_tanggal r = 20) (setoran_list insertion_order 0 0 ex_day)) @
     map (tarik_entry ex_day)
       (filter (\<lambda>r. t_tanggal r = 20) (tarik_list insertion_order 0 0 ex_day)) @
     map (pengepul_entry ex_day)
       (filter (\<lambda>r. p_tanggal r = 20) (pengepul_list insertion_order 0 0 ex_day))"
    by blast
  then have a: "filter (\<lambda>e. tanggal e = 20) (generate_transaction_report insertion_order 0 0 ex_day) =
     [tarik_entry ex_day ((ex_tarik ''completed'')\<lparr>t_tanggal := 20\<rparr>),
      pengepul_entry ex_day
        \<lparr>p_id = 1, p_pengepul_id = 1, p_jenis_sampah_id = 1, p_berat = 3,
         p_harga_jual = 2500, p_total = 7500, p_tanggal = 20\<rparr>]"
    by (simp add: setoran_list_def tarik_list_def pengepul_list_def insertion_order_def
        in_range_def cast_Date_def ex_day_def ex_setoran_def ex_tarik_def)
  from r have "mset (generate_transaction_report insertion_order 0 0 ex_day) =
     image_mset (setoran_entry ex_day)
       (filter_mset (\<lambda>r. 0 \<le> cast_Date (s_tanggal r) \<and> cast_Date (s_tanggal r) \<le> 0)
          (mset (transaksi_setoran ex_day))) +
     image_mset (tarik_entry ex_day)
       (filter_mset (\<lambda>r. 0 \<le> cast_Date (t_tanggal r) \<and> cast_Date (t_tanggal r) \<le> 0 \<and>
                          t_status r = ''completed'')
          (mset (transaksi_tarik ex_day))) +
     image_mset (pengepul_entry ex_day)
       (filter_mset (\<lambda>r. 0 \<le> cast_Date (p_tanggal r) \<and> cast_Date (p_tanggal r) \<le> 0)
          (mset (transaksi_pengepul ex_day)))"
    by blast
  then have b: "size (mset (generate_transaction_report insertion_order 0 0 ex_day)) = 3"
    by (simp add: cast_Date_def ex_day_def ex_setoran_def ex_tarik_def)
  from h a b show ?thesis by blast
qed

text \<open>
  The claim as stated, ties in insertion order, fails: a sale recorded first and a deposit
  recorded after it with the same timestamp are listed deposit first.
\<close>

theorem generate_transaction_report_counterexample:
  "map (\<lambda>e. (transaction_type e, transaction_id e, tanggal e))
     (generate_transaction_report insertion_order 0 0
        (run [RecordSale 5
            \<lparr>pc_pengepul_id = 1, pc_jenis_sampah_id = 1, pc_berat = 3, pc_harga_jual = 2500\<rparr>,
           RecordDeposit 5
            \<lparr>sc_nasabah_id = 1, sc_petugas_id = 1, sc_jenis_sampah_id = 1, sc_berat = 5\<rparr>]
          ex_store)) =
     [(''setoran'', 1, 5), (''pengepul'', 1, 5)]"
  by (simp add: generate_transaction_report_def reports_def setoran_list_def tarik_list_def
      pengepul_list_def sorted_reverse_def insertion_order_def in_range_def cast_Date_def
      run_def create_setoran_def create_pengepul_transaction_def insert_setoran_def
      insert_pengepul_def fk_setoran_def fk_pengepul_def ex_store_def next_id_def Let_def
      setoran_entry_def tarik_entry_def pengepul_entry_def)

text \<open>
  The report of a day with a deposit, a completed and a pending withdrawal and a sale, the
  withdrawal and the sale having the same timestamp; and the empty report of the next day.
\<close>

lemma generate_transaction_report_example:
  "generate_transaction_report insertion_order 0 0 ex_day =
     [tarik_entry ex_day ((ex_tarik ''completed'')\<lparr>t_tanggal := 20\<rparr>),
      pengepul_entry ex_day
        \<lparr>p_id = 1, p_pengepul_id = 1, p_jenis_sampah_id = 1, p_berat = 3,
         p_harga_jual = 2500, p_total = 7500, p_tanggal = 20\<rparr>,
      setoran_entry ex_day ex_setoran] \<and>
   generate_transaction_report insertion_order 1 1 ex_day = []"
  by (simp add: generate_transaction_report_def reports_def setoran_list_def tarik_list_def
      pengepul_list_def sorted_reverse_def insertion_order_def in_range_def cast_Date_def
      ex_day_def ex_setoran_def ex_tarik_def setoran_entry_def tarik_entry_def
      pengepul_entry_def)

end
